theory Spec2Isabelle
  imports Main "HOL-Library.Word"
begin

unbundle bit_operations_syntax

section \<open>The native socket layer of QuestDB (core/src/main/c/share/net.c)\<close>

text \<open>
  Every function of \<^verbatim>\<open>net.c\<close> is a thin wrapper around one or a few calls of the
  operating system. The embedding keeps the wrappers as they are written and makes
  the operating system a parameter: a record of functions over an arbitrary state
  \<open>'s\<close>, each taking the arguments the C call takes and returning the C result
  together with the next state. What a wrapper does with the answer of the system
  (casts, comparisons, sentinels, the calls that follow) is the code under
  verification; what the system answers is an input.

  The JNI parameters \<^verbatim>\<open>JNIEnv *e\<close> and \<^verbatim>\<open>jclass cl\<close> are never used by the code and
  are left out.
\<close>

subsection \<open>C and JNI types (LP64)\<close>

type_synonym byte = "8 word"
type_synonym jboolean = "8 word"   \<comment> \<open>\<^verbatim>\<open>unsigned char\<close>\<close>
type_synonym jint = "32 word"      \<comment> \<open>signed, read with \<^const>\<open>sint\<close>\<close>
type_synonym jlong = "64 word"     \<comment> \<open>signed, read with \<^const>\<open>sint\<close>\<close>
type_synonym c_int = "32 word"     \<comment> \<open>\<^verbatim>\<open>int\<close>\<close>
type_synonym ssize_t = "64 word"   \<comment> \<open>signed\<close>
type_synonym size_t = "64 word"    \<comment> \<open>unsigned, read with \<^const>\<open>uint\<close>\<close>

definition JNI_FALSE :: jboolean where "JNI_FALSE = 0"
definition JNI_TRUE :: jboolean where "JNI_TRUE = 1"

text \<open>The casts the code writes, by name.\<close>

definition int_of_jlong :: "jlong \<Rightarrow> c_int" where
  \<comment> \<open>\<^verbatim>\<open>(int) fd\<close>: the low 32 bits\<close>
  "int_of_jlong fd = ucast fd"

definition size_t_of_jint :: "jint \<Rightarrow> size_t" where
  \<comment> \<open>\<^verbatim>\<open>(size_t) len\<close>: sign extension, so a negative length becomes huge\<close>
  "size_t_of_jint len = scast len"

definition jint_of_ssize_t :: "ssize_t \<Rightarrow> jint" where
  \<comment> \<open>\<^verbatim>\<open>return n;\<close> from a function returning \<^verbatim>\<open>jint\<close>: the low 32 bits\<close>
  "jint_of_ssize_t n = ucast n"

definition jlong_of_int :: "c_int \<Rightarrow> jlong" where
  \<comment> \<open>\<^verbatim>\<open>return fd;\<close> from a function returning \<^verbatim>\<open>jlong\<close>: sign extension\<close>
  "jlong_of_int fd = scast fd"

subsection \<open>Constants of the headers\<close>

text \<open>
  The constants of the system headers differ between the platforms the file is
  compiled for; they are a parameter. \<open>little_endian\<close> is the byte order of the host.
\<close>

record platform =
  little_endian :: bool
  AF_INET :: c_int
  SOCK_STREAM :: c_int
  SOCK_DGRAM :: c_int
  F_SETFL :: c_int
  O_NONBLOCK :: c_int
  SOL_SOCKET :: c_int
  SO_REUSEADDR :: c_int
  IPPROTO_IP :: c_int
  IP_ADD_MEMBERSHIP :: c_int
  IP_MULTICAST_TTL :: c_int
  MSG_PEEK :: c_int
  EWOULDBLOCK :: c_int

text \<open>The values of Linux on x86-64, for concrete runs.\<close>

definition linux :: platform where
  "linux = \<lparr> little_endian = True, AF_INET = 2, SOCK_STREAM = 1, SOCK_DGRAM = 2,
     F_SETFL = 4, O_NONBLOCK = 2048, SOL_SOCKET = 1, SO_REUSEADDR = 2, IPPROTO_IP = 0,
     IP_ADD_MEMBERSHIP = 35, IP_MULTICAST_TTL = 33, MSG_PEEK = 2, EWOULDBLOCK = 11 \<rparr>"

text \<open>
  \<^verbatim>\<open>net.h\<close>, which declares \<^verbatim>\<open>com_questdb_network_Net_ERETRY\<close> and
  \<^verbatim>\<open>com_questdb_network_Net_EOTHERDISCONNECT\<close>, is not among the sources. The two
  sentinels are a parameter of every function that returns them.
\<close>

record net_h =
  ERETRY :: jint
  EOTHERDISCONNECT :: jint

text \<open>
  Modelled from the spec: the values of the sentinels of the missing \<^verbatim>\<open>net.h\<close>.
  Section 6 of the specification says of them only that the Retry sentinel is
  ``a fixed negative value distinct from Disconnected'' and the Disconnected sentinel
  ``a fixed negative value distinct from Retry''.
\<close>

definition sentinels_ok :: "net_h \<Rightarrow> bool" where
  "sentinels_ok K \<longleftrightarrow>
     sint (ERETRY K) < 0 \<and> sint (EOTHERDISCONNECT K) < 0 \<and> ERETRY K \<noteq> EOTHERDISCONNECT K"

text \<open>One choice of values that meets this description, for concrete runs.\<close>

definition sample_net_h :: net_h where
  "sample_net_h = \<lparr> ERETRY = - 1, EOTHERDISCONNECT = - 2 \<rparr>"

subsection \<open>The system calls of the data path\<close>

text \<open>
  \<open>os_send fd buf len flags\<close> is \<^verbatim>\<open>send(fd, ptr, len, flags)\<close>, with the bytes found
  at \<^verbatim>\<open>ptr\<close> in place of the pointer. \<open>os_recv fd len flags\<close> is
  \<^verbatim>\<open>recv(fd, ptr, len, flags)\<close>; it returns, next to the count, the bytes the
  system has written at \<^verbatim>\<open>ptr\<close>. \<open>os_errno\<close> reads \<^verbatim>\<open>errno\<close>.
\<close>

record 's sock_io =
  os_send :: "c_int \<Rightarrow> byte list \<Rightarrow> size_t \<Rightarrow> c_int \<Rightarrow> 's \<Rightarrow> ssize_t \<times> 's"
  os_recv :: "c_int \<Rightarrow> size_t \<Rightarrow> c_int \<Rightarrow> 's \<Rightarrow> (ssize_t \<times> byte list) \<times> 's"
  os_errno :: "'s \<Rightarrow> c_int"

subsection \<open>IOOps: send, recv, peek, isDead\<close>

text \<open>
  \<^verbatim>\<open>Java_io_questdb_network_Net_send\<close>: a count above \<open>-1\<close> is returned as it is,
  then \<^verbatim>\<open>errno\<close> decides between the two sentinels.
\<close>

definition Net_send ::
  "net_h \<Rightarrow> platform \<Rightarrow> 's sock_io \<Rightarrow> jlong \<Rightarrow> byte list \<Rightarrow> jint \<Rightarrow> 's \<Rightarrow> jint \<times> 's" where
  "Net_send K P os fd buf len s =
     (let (n, s') = os_send os (int_of_jlong fd) buf (size_t_of_jint len) 0 s in
      if - 1 < sint n then (jint_of_ssize_t n, s')
      else if os_errno os s' = EWOULDBLOCK P then (ERETRY K, s')
      else (EOTHERDISCONNECT K, s'))"

text \<open>
  \<^verbatim>\<open>Java_io_questdb_network_Net_recv\<close>. The result carries the bytes now in the
  caller's buffer.
\<close>

definition Net_recv ::
  "net_h \<Rightarrow> platform \<Rightarrow> 's sock_io \<Rightarrow> jlong \<Rightarrow> jint \<Rightarrow> 's \<Rightarrow> (jint \<times> byte list) \<times> 's" where
  "Net_recv K P os fd len s =
     (let ((n, bs), s') = os_recv os (int_of_jlong fd) (size_t_of_jint len) 0 s in
      if 0 < sint n then ((jint_of_ssize_t n, bs), s')
      else if n = 0 then ((EOTHERDISCONNECT K, bs), s')
      else if os_errno os s' = EWOULDBLOCK P then ((ERETRY K, bs), s')
      else ((EOTHERDISCONNECT K, bs), s'))"

text \<open>\<^verbatim>\<open>Java_io_questdb_network_Net_peek\<close>: the same text with the flag \<^verbatim>\<open>MSG_PEEK\<close>.\<close>

definition Net_peek ::
  "net_h \<Rightarrow> platform \<Rightarrow> 's sock_io \<Rightarrow> jlong \<Rightarrow> jint \<Rightarrow> 's \<Rightarrow> (jint \<times> byte list) \<times> 's" where
  "Net_peek K P os fd len s =
     (let ((n, bs), s') = os_recv os (int_of_jlong fd) (size_t_of_jint len) (MSG_PEEK P) s in
      if 0 < sint n then ((jint_of_ssize_t n, bs), s')
      else if n = 0 then ((EOTHERDISCONNECT K, bs), s')
      else if os_errno os s' = EWOULDBLOCK P then ((ERETRY K, bs), s')
      else ((EOTHERDISCONNECT K, bs), s'))"

text \<open>
  \<^verbatim>\<open>Java_io_questdb_network_Net_isDead\<close>: one byte is read into a local variable,
  with flags 0, and the byte is dropped.
\<close>

definition Net_isDead :: "'s sock_io \<Rightarrow> jlong \<Rightarrow> 's \<Rightarrow> jboolean \<times> 's" where
  "Net_isDead os fd s =
     (let ((n, c), s') = os_recv os (int_of_jlong fd) 1 0 s in
      (if sint n < 1 then JNI_TRUE else JNI_FALSE, s'))"

subsection \<open>A model of the system for concrete runs: non-blocking stream sockets\<close>

text \<open>
  The theorems about the data path hold for every system. Where a statement is about
  what a socket holds (pending bytes, a peer that has or has not closed), and for
  concrete runs, the system is a small model of connected stream sockets in
  non-blocking mode, after \<^verbatim>\<open>recv(2)\<close> and \<^verbatim>\<open>send(2)\<close>: a descriptor table, and for
  each socket the bytes received and not yet read, whether the peer has closed its
  sending side, and the free space of the send buffer.
\<close>

record endpoint =
  rxq :: "byte list"
  eof :: bool
  txq :: "byte list"
  room :: nat

record kernel =
  fds :: "c_int \<rightharpoonup> endpoint"
  k_errno :: c_int

definition EBADF :: c_int where "EBADF = 9"

definition k_recv :: "platform \<Rightarrow> c_int \<Rightarrow> size_t \<Rightarrow> c_int \<Rightarrow> kernel \<Rightarrow> (ssize_t \<times> byte list) \<times> kernel" where
  "k_recv P fd len flags k =
     (case fds k fd of
        None \<Rightarrow> ((- 1, []), k\<lparr>k_errno := EBADF\<rparr>)
      | Some e \<Rightarrow>
          if rxq e = [] then
            (if eof e then ((0, []), k) else ((- 1, []), k\<lparr>k_errno := EWOULDBLOCK P\<rparr>))
          else
            (let bs = take (unat len) (rxq e) in
             ((of_nat (length bs), bs),
              if flags AND MSG_PEEK P \<noteq> 0 then k
              else k\<lparr>fds := (fds k)(fd \<mapsto> e\<lparr>rxq := drop (unat len) (rxq e)\<rparr>)\<rparr>)))"

definition k_send :: "platform \<Rightarrow> c_int \<Rightarrow> byte list \<Rightarrow> size_t \<Rightarrow> c_int \<Rightarrow> kernel \<Rightarrow> ssize_t \<times> kernel" where
  "k_send P fd buf len flags k =
     (case fds k fd of
        None \<Rightarrow> (- 1, k\<lparr>k_errno := EBADF\<rparr>)
      | Some e \<Rightarrow>
          if len = 0 then (0, k)
          else if room e = 0 then (- 1, k\<lparr>k_errno := EWOULDBLOCK P\<rparr>)
          else
            (let m = min (unat len) (room e) in
             (of_nat m, k\<lparr>fds := (fds k)(fd \<mapsto> e\<lparr>txq := txq e @ take m buf, room := room e - m\<rparr>)\<rparr>)))"

definition stream_os :: "platform \<Rightarrow> kernel sock_io" where
  "stream_os P = \<lparr> os_send = k_send P, os_recv = k_recv P, os_errno = k_errno \<rparr>"

text \<open>Sockets of the model used in the concrete runs: descriptor 5, in three states.\<close>

definition k_pending :: kernel where
  \<comment> \<open>four bytes, ``PING'', have arrived; the peer is still open\<close>
  "k_pending = \<lparr> fds = [5 \<mapsto> \<lparr> rxq = [80, 73, 78, 71], eof = False, txq = [], room = 8 \<rparr>],
     k_errno = 0 \<rparr>"

definition k_idle :: kernel where
  \<comment> \<open>connected, nothing pending, the peer has not closed\<close>
  "k_idle = \<lparr> fds = [5 \<mapsto> \<lparr> rxq = [], eof = False, txq = [], room = 0 \<rparr>], k_errno = 0 \<rparr>"

definition k_closed :: kernel where
  \<comment> \<open>the peer has closed and everything has been read\<close>
  "k_closed = \<lparr> fds = [5 \<mapsto> \<lparr> rxq = [], eof = True, txq = [], room = 8 \<rparr>], k_errno = 0 \<rparr>"

subsection \<open>Byte order\<close>

text \<open>
  A \<^verbatim>\<open>uint32_t\<close> in memory is four bytes; \<open>mem_bytes32\<close> lists them in address order
  for the byte order of the host, \<open>be_bytes32\<close> lists them in network order, most
  significant first. \<^verbatim>\<open>htonl\<close>, \<^verbatim>\<open>htons\<close>, \<^verbatim>\<open>ntohl\<close> and \<^verbatim>\<open>ntohs\<close> are those of
  \<^verbatim>\<open>arpa/inet.h\<close>: a byte swap on a little-endian host, the identity on a big-endian
  one.
\<close>

definition be_bytes32 :: "32 word \<Rightarrow> byte list" where
  "be_bytes32 x = [ucast (drop_bit 24 x), ucast (drop_bit 16 x), ucast (drop_bit 8 x), ucast x]"

definition be_bytes16 :: "16 word \<Rightarrow> byte list" where
  "be_bytes16 x = [ucast (drop_bit 8 x), ucast x]"

text \<open>The value with given bytes in network order.\<close>

definition be_word32 :: "byte list \<Rightarrow> 32 word" where
  "be_word32 bs =
     (case bs of
        [a, b, c, d] \<Rightarrow> push_bit 24 (ucast a) OR push_bit 16 (ucast b) OR push_bit 8 (ucast c) OR ucast d
      | _ \<Rightarrow> 0)"

definition be_word16 :: "byte list \<Rightarrow> 16 word" where
  "be_word16 bs = (case bs of [a, b] \<Rightarrow> push_bit 8 (ucast a) OR ucast b | _ \<Rightarrow> 0)"

definition mem_bytes32 :: "platform \<Rightarrow> 32 word \<Rightarrow> byte list" where
  "mem_bytes32 P x = (if little_endian P then rev (be_bytes32 x) else be_bytes32 x)"

definition mem_bytes16 :: "platform \<Rightarrow> 16 word \<Rightarrow> byte list" where
  "mem_bytes16 P x = (if little_endian P then rev (be_bytes16 x) else be_bytes16 x)"

definition bswap32 :: "32 word \<Rightarrow> 32 word" where
  "bswap32 x = push_bit 24 (take_bit 8 x) OR push_bit 16 (take_bit 8 (drop_bit 8 x))
     OR push_bit 8 (take_bit 8 (drop_bit 16 x)) OR take_bit 8 (drop_bit 24 x)"

definition bswap16 :: "16 word \<Rightarrow> 16 word" where
  "bswap16 x = push_bit 8 (take_bit 8 x) OR take_bit 8 (drop_bit 8 x)"

definition htonl :: "platform \<Rightarrow> 32 word \<Rightarrow> 32 word" where
  "htonl P x = (if little_endian P then bswap32 x else x)"

definition htons :: "platform \<Rightarrow> 16 word \<Rightarrow> 16 word" where
  "htons P x = (if little_endian P then bswap16 x else x)"

definition ntohl :: "platform \<Rightarrow> 32 word \<Rightarrow> 32 word" where
  "ntohl P x = (if little_endian P then bswap32 x else x)"

definition ntohs :: "platform \<Rightarrow> 16 word \<Rightarrow> 16 word" where
  "ntohs P x = (if little_endian P then bswap16 x else x)"

subsection \<open>Socket addresses\<close>

text \<open>
  \<^verbatim>\<open>struct sockaddr_in\<close>, with \<^verbatim>\<open>sin_addr.s_addr\<close> flattened to \<open>s_addr\<close>. The
  code reads the family of a \<^verbatim>\<open>struct sockaddr\<close> as \<^verbatim>\<open>sa_family\<close> and then casts
  the pointer to \<^verbatim>\<open>struct sockaddr_in *\<close>; both structures begin with the family, so
  \<open>sin_family\<close> stands for \<^verbatim>\<open>sa_family\<close> too.
\<close>

record sockaddr_in =
  sin_family :: "16 word"
  sin_port :: "16 word"
  s_addr :: "32 word"

subsection \<open>The system calls of the control path\<close>

text \<open>
  \<open>os_setsockopt fd level opt val\<close> is \<^verbatim>\<open>setsockopt(fd, level, opt, &val, sizeof(val))\<close>
  with the bytes of the option value in address order. \<open>os_getpeername fd len\<close> is
  \<^verbatim>\<open>getpeername(fd, &peer, &nameLen)\<close> and returns the content of \<^verbatim>\<open>peer\<close> after
  the call next to the result.
\<close>

record 's sock_ctl =
  os_socket :: "c_int \<Rightarrow> c_int \<Rightarrow> c_int \<Rightarrow> 's \<Rightarrow> c_int \<times> 's"
  os_fcntl :: "c_int \<Rightarrow> c_int \<Rightarrow> c_int \<Rightarrow> 's \<Rightarrow> c_int \<times> 's"
  os_setsockopt :: "c_int \<Rightarrow> c_int \<Rightarrow> c_int \<Rightarrow> byte list \<Rightarrow> 's \<Rightarrow> c_int \<times> 's"
  os_close :: "c_int \<Rightarrow> 's \<Rightarrow> c_int \<times> 's"
  os_getpeername :: "c_int \<Rightarrow> nat \<Rightarrow> 's \<Rightarrow> (c_int \<times> sockaddr_in) \<times> 's"

subsection \<open>SocketFactory\<close>

text \<open>\<^verbatim>\<open>Java_io_questdb_network_Net_socketTcp0\<close>. \<^verbatim>\<open>!blocking\<close> is \<open>blocking = 0\<close>.\<close>

definition Net_socketTcp0 :: "platform \<Rightarrow> 's sock_ctl \<Rightarrow> jboolean \<Rightarrow> 's \<Rightarrow> jlong \<times> 's" where
  "Net_socketTcp0 P os blocking s =
     (let (fd, s1) = os_socket os (AF_INET P) (SOCK_STREAM P) 0 s in
      if 0 < sint fd \<and> blocking = 0 then
        (let (r1, s2) = os_fcntl os fd (F_SETFL P) (O_NONBLOCK P) s1 in
         if sint r1 < 0 then (- 1, snd (os_close os fd s2))
         else
           (let oni = 1;
                (r2, s3) = os_setsockopt os fd (SOL_SOCKET P) (SO_REUSEADDR P) (mem_bytes32 P oni) s2 in
            if sint r2 < 0 then (- 1, snd (os_close os fd s3))
            else (jlong_of_int fd, s3)))
      else (jlong_of_int fd, s1))"

text \<open>
  \<^verbatim>\<open>Java_io_questdb_network_Net_socketUdp0\<close>. The \<^verbatim>\<open>&&\<close> of C evaluates \<^verbatim>\<open>fcntl\<close> only
  when \<^verbatim>\<open>fd > 0\<close>.
\<close>

definition Net_socketUdp0 :: "platform \<Rightarrow> 's sock_ctl \<Rightarrow> 's \<Rightarrow> jlong \<times> 's" where
  "Net_socketUdp0 P os s =
     (let (fd, s1) = os_socket os (AF_INET P) (SOCK_DGRAM P) 0 s in
      if 0 < sint fd then
        (let (r1, s2) = os_fcntl os fd (F_SETFL P) (O_NONBLOCK P) s1 in
         if sint r1 < 0 then (- 1, snd (os_close os fd s2))
         else (jlong_of_int fd, s2))
      else (jlong_of_int fd, s1))"

subsection \<open>MulticastOps\<close>

text \<open>
  \<^verbatim>\<open>Java_io_questdb_network_Net_join\<close>. \<^verbatim>\<open>struct ip_mreq\<close> holds \<^verbatim>\<open>imr_multiaddr\<close>
  first and \<^verbatim>\<open>imr_interface\<close> second.
\<close>

definition Net_join :: "platform \<Rightarrow> 's sock_ctl \<Rightarrow> jlong \<Rightarrow> jint \<Rightarrow> jint \<Rightarrow> 's \<Rightarrow> jboolean \<times> 's" where
  "Net_join P os fd bindAddress groupAddress s =
     (let imr_interface = htonl P bindAddress;
          imr_multiaddr = htonl P groupAddress;
          (r, s') = os_setsockopt os (int_of_jlong fd) (IPPROTO_IP P) (IP_ADD_MEMBERSHIP P)
                      (mem_bytes32 P imr_multiaddr @ mem_bytes32 P imr_interface) s in
      (if sint r < 0 then JNI_FALSE else JNI_TRUE, s'))"

text \<open>
  \<^verbatim>\<open>Java_io_questdb_network_Net_setMulticastTtl\<close>. \<^verbatim>\<open>u_char lTTL = ttl;\<close> keeps the low
  eight bits; the option value is that one byte.
\<close>

definition Net_setMulticastTtl :: "platform \<Rightarrow> 's sock_ctl \<Rightarrow> jlong \<Rightarrow> jint \<Rightarrow> 's \<Rightarrow> jint \<times> 's" where
  "Net_setMulticastTtl P os fd ttl s =
     (let lTTL = (ucast ttl :: byte);
          (result, s') = os_setsockopt os (int_of_jlong fd) (IPPROTO_IP P) (IP_MULTICAST_TTL P) [lTTL] s in
      if result = 0 then (result, s') else (- 1, s'))"

subsection \<open>PeerInfo\<close>

text \<open>
  \<^verbatim>\<open>Java_io_questdb_network_Net_getPeerIP\<close> and \<^verbatim>\<open>Java_io_questdb_network_Net_getPeerPort\<close>.
  \<^verbatim>\<open>sizeof(struct sockaddr)\<close> is 16. The \<^verbatim>\<open>uint32_t\<close> of \<^verbatim>\<open>ntohl\<close> is returned as a
  \<^verbatim>\<open>jint\<close> with the same bits; the \<^verbatim>\<open>uint16_t\<close> of \<^verbatim>\<open>ntohs\<close> is zero-extended.
\<close>

definition Net_getPeerIP :: "platform \<Rightarrow> 's sock_ctl \<Rightarrow> jlong \<Rightarrow> 's \<Rightarrow> jint \<times> 's" where
  "Net_getPeerIP P os fd s =
     (let ((r, peer), s') = os_getpeername os (int_of_jlong fd) 16 s in
      if r = 0 then
        (if ucast (sin_family peer) = AF_INET P then (ntohl P (s_addr peer), s')
         else (- 2, s'))
      else (- 1, s'))"

definition Net_getPeerPort :: "platform \<Rightarrow> 's sock_ctl \<Rightarrow> jlong \<Rightarrow> 's \<Rightarrow> jint \<times> 's" where
  "Net_getPeerPort P os fd s =
     (let ((r, peer), s') = os_getpeername os (int_of_jlong fd) 16 s in
      if r = 0 then
        (if ucast (sin_family peer) = AF_INET P then (ucast (ntohs P (sin_port peer)), s')
         else (- 2, s'))
      else (- 1, s'))"

subsection \<open>AddressBuilder\<close>

text \<open>
  The descriptors built by \<^verbatim>\<open>Net_sockaddr\<close> live in the C heap: a map from addresses to
  the \<^verbatim>\<open>struct sockaddr_in\<close> stored there. \<open>alloc\<close> is \<^verbatim>\<open>calloc(1, sizeof(struct
  sockaddr_in))\<close>: it returns 0 when memory is exhausted. The code does not test the
  pointer, so writing through a null pointer is a result of the model, and so is
  \<^verbatim>\<open>free\<close> of an address that holds no block.
\<close>

type_synonym heap = "jlong \<rightharpoonup> sockaddr_in"

datatype fault = NullDereference | InvalidFree

definition Net_sockaddr ::
  "platform \<Rightarrow> (heap \<Rightarrow> jlong) \<Rightarrow> jint \<Rightarrow> jint \<Rightarrow> heap \<Rightarrow> fault + jlong \<times> heap" where
  "Net_sockaddr P alloc address port h =
     (let addr = alloc h in
      if addr = 0 then Inl NullDereference
      else Inr (addr, h(addr \<mapsto>
        \<lparr> sin_family = ucast (AF_INET P),
          sin_port = htons P (ucast port),
          s_addr = htonl P address \<rparr>)))"

definition Net_freeSockAddr :: "jlong \<Rightarrow> heap \<Rightarrow> fault + heap" where
  "Net_freeSockAddr address h =
     (if address \<noteq> 0 then
        (if address \<in> dom h then Inr (h(address := None)) else Inl InvalidFree)
      else Inr h)"

subsection \<open>A scripted system for concrete runs of the control path\<close>

text \<open>
  For concrete runs of the control path the system is a script: it answers each call
  with the next value of a list (\<open>-1\<close> when the list is used up) and records the call.
\<close>

datatype syscall =
    Socket c_int c_int c_int
  | Fcntl c_int c_int c_int
  | Setsockopt c_int c_int c_int "byte list"
  | Close c_int
  | Getpeername c_int nat

record script =
  answers :: "c_int list"
  peer_answer :: sockaddr_in
  trace :: "syscall list"

definition answer :: "syscall \<Rightarrow> script \<Rightarrow> c_int \<times> script" where
  "answer c t =
     (case answers t of
        [] \<Rightarrow> (- 1, t\<lparr>trace := trace t @ [c]\<rparr>)
      | r # rs \<Rightarrow> (r, t\<lparr>answers := rs, trace := trace t @ [c]\<rparr>))"

definition scripted :: "script sock_ctl" where
  "scripted =
     \<lparr> os_socket = (\<lambda>domain type protocol. answer (Socket domain type protocol)),
       os_fcntl = (\<lambda>fd cmd arg. answer (Fcntl fd cmd arg)),
       os_setsockopt = (\<lambda>fd level opt val. answer (Setsockopt fd level opt val)),
       os_close = (\<lambda>fd. answer (Close fd)),
       os_getpeername = (\<lambda>fd len t. let (r, t') = answer (Getpeername fd len) t
                                     in ((r, peer_answer t), t')) \<rparr>"

definition script_of :: "c_int list \<Rightarrow> sockaddr_in \<Rightarrow> script" where
  "script_of rs peer = \<lparr> answers = rs, peer_answer = peer, trace = [] \<rparr>"

text \<open>
  Contents of \<^verbatim>\<open>peer\<close> for the concrete runs, as a little-endian host reads them: no
  peer (the structure is all zero); the IPv4 peer 127.0.0.1, port 9009; the IPv4 peers
  255.255.255.255 and 255.255.255.254, port 9009; a peer of family \<^verbatim>\<open>AF_INET6\<close> (10 on Linux).
\<close>

definition no_peer :: sockaddr_in where
  "no_peer = \<lparr> sin_family = 0, sin_port = 0, s_addr = 0 \<rparr>"

definition peer_loopback :: sockaddr_in where
  "peer_loopback = \<lparr> sin_family = 2, sin_port = 12579, s_addr = 16777343 \<rparr>"

definition peer_all_ones :: sockaddr_in where
  "peer_all_ones = \<lparr> sin_family = 2, sin_port = 12579, s_addr = 4294967295 \<rparr>"

definition peer_class_e :: sockaddr_in where
  "peer_class_e = \<lparr> sin_family = 2, sin_port = 12579, s_addr = 4278190079 \<rparr>"

definition peer_inet6 :: sockaddr_in where
  "peer_inet6 = \<lparr> sin_family = 10, sin_port = 12579, s_addr = 0 \<rparr>"

section \<open>Properties\<close>

subsection \<open>Conversions between the integer types\<close>

lemma sint_narrow:
  fixes n :: "64 word"
  assumes "- (2 ^ 31) \<le> sint n" "sint n < 2 ^ 31"
  shows "sint (ucast n :: 32 word) = sint n"
proof -
  have "sint (ucast n :: 32 word) = signed_take_bit 31 (uint n)"
    by (simp add: signed_ucast_eq)
  also have "\<dots> = signed_take_bit 31 (signed_take_bit 63 (uint n))"
    by simp
  also have "\<dots> = signed_take_bit 31 (sint n)"
    by (simp only: sint_uint [of n]) simp
  also have "\<dots> = sint n"
    using assms by (simp add: signed_take_bit_int_eq_self)
  finally show ?thesis .
qed

lemma sint_jint_bounds: "- (2 ^ 31) \<le> sint (x :: 32 word) \<and> sint x < 2 ^ 31"
  using sint_greater_eq [of x] sint_less [of x] by simp

text \<open>A count that is at most the \<^verbatim>\<open>jint\<close> length asked for survives the return as \<^verbatim>\<open>jint\<close>.\<close>

lemma count_fits:
  assumes "0 \<le> sint n" "sint n \<le> sint (len :: jint)"
  shows "sint (jint_of_ssize_t n) = sint n"
  unfolding jint_of_ssize_t_def using assms sint_jint_bounds [of len]
  by (intro sint_narrow) auto

lemma sample_sentinels_ok: "sentinels_ok sample_net_h"
  by (simp add: sentinels_ok_def sample_net_h_def)

subsection \<open>recv\<close>

text \<open>
  C1. Let the system answer the read of \<open>Net_recv\<close> with the count \<open>n\<close>. If \<open>n > 0\<close>,
  \<open>Net_recv\<close> returns the low 32 bits of \<open>n\<close>, which is \<open>n\<close> itself whenever the system
  has delivered no more than the \<open>len\<close> bytes asked for. If \<open>n = 0\<close> it returns the
  Disconnected sentinel, which is not the Retry sentinel. If the read fails with
  \<^verbatim>\<open>errno == EWOULDBLOCK\<close> it returns the Retry sentinel, which is not the Disconnected
  sentinel. For every other failure it returns the Disconnected sentinel. The two
  sentinels are distinct by section 6 of the specification.
\<close>

theorem recv_classification:
  assumes "os_recv os (int_of_jlong fd) (size_t_of_jint len) 0 s = ((n, bs), s')"
    and "sentinels_ok K"
  shows "(0 < sint n \<longrightarrow> Net_recv K P os fd len s = ((jint_of_ssize_t n, bs), s'))
       \<and> (0 < sint n \<and> sint n \<le> sint len \<longrightarrow>
            sint (fst (fst (Net_recv K P os fd len s))) = sint n)
       \<and> (n = 0 \<longrightarrow> Net_recv K P os fd len s = ((EOTHERDISCONNECT K, bs), s')
            \<and> fst (fst (Net_recv K P os fd len s)) \<noteq> ERETRY K)
       \<and> (sint n < 0 \<and> os_errno os s' = EWOULDBLOCK P \<longrightarrow>
            Net_recv K P os fd len s = ((ERETRY K, bs), s')
            \<and> fst (fst (Net_recv K P os fd len s)) \<noteq> EOTHERDISCONNECT K)
       \<and> (sint n < 0 \<and> os_errno os s' \<noteq> EWOULDBLOCK P \<longrightarrow>
            Net_recv K P os fd len s = ((EOTHERDISCONNECT K, bs), s'))"
proof -
  have fit: "sint (jint_of_ssize_t n) = sint n" if "0 < sint n" "sint n \<le> sint len"
    using that by (intro count_fits) auto
  show ?thesis
    using assms fit by (auto simp: Net_recv_def sentinels_ok_def)
qed

text \<open>
  The four cases on descriptor 5 of the model: three of the four pending bytes are
  read; the peer has closed; nothing is pending; and descriptor 6, which is not open.
\<close>

theorem recv_classification_witness:
  "sentinels_ok sample_net_h
   \<and> fst (os_recv (stream_os linux) (int_of_jlong 5) (size_t_of_jint 3) 0 k_pending) = (3, [80, 73, 78])
   \<and> Net_recv sample_net_h linux (stream_os linux) 5 3 k_pending
       = ((3, [80, 73, 78]), snd (os_recv (stream_os linux) (int_of_jlong 5) (size_t_of_jint 3) 0 k_pending))
   \<and> sint (fst (fst (Net_recv sample_net_h linux (stream_os linux) 5 3 k_pending))) = 3
   \<and> fst (os_recv (stream_os linux) (int_of_jlong 5) (size_t_of_jint 3) 0 k_closed) = (0, [])
   \<and> fst (Net_recv sample_net_h linux (stream_os linux) 5 3 k_closed)
       = (EOTHERDISCONNECT sample_net_h, [])
   \<and> fst (os_recv (stream_os linux) (int_of_jlong 5) (size_t_of_jint 3) 0 k_idle) = (- 1, [])
   \<and> fst (Net_recv sample_net_h linux (stream_os linux) 5 3 k_idle) = (ERETRY sample_net_h, [])
   \<and> fst (os_recv (stream_os linux) (int_of_jlong 6) (size_t_of_jint 3) 0 k_idle) = (- 1, [])
   \<and> fst (Net_recv sample_net_h linux (stream_os linux) 6 3 k_idle)
       = (EOTHERDISCONNECT sample_net_h, [])"
proof -
  let ?os = "stream_os linux"
  let ?run = "\<lambda>fd k. os_recv ?os (int_of_jlong fd) (size_t_of_jint 3) 0 k"
  have f: "fst (?run 5 k_pending) = (3, [80, 73, 78])"
    "fst (?run 5 k_closed) = (0, [])"
    "fst (?run 5 k_idle) = (- 1, [])"
    "fst (?run 6 k_idle) = (- 1, [])"
    and e: "os_errno ?os (snd (?run 5 k_idle)) = EWOULDBLOCK linux"
    "os_errno ?os (snd (?run 6 k_idle)) \<noteq> EWOULDBLOCK linux"
    by (simp_all add: stream_os_def k_recv_def k_pending_def k_closed_def k_idle_def
        int_of_jlong_def size_t_of_jint_def linux_def EBADF_def)
  have ev: "?run 5 k_pending = ((3, [80, 73, 78]), snd (?run 5 k_pending))"
    "?run 5 k_closed = ((0, []), snd (?run 5 k_closed))"
    "?run 5 k_idle = ((- 1, []), snd (?run 5 k_idle))"
    "?run 6 k_idle = ((- 1, []), snd (?run 6 k_idle))"
    using f by (simp_all add: prod_eq_iff)
  note c = recv_classification [OF _ sample_sentinels_ok, of ?os _ 3 _ _ _ _ linux]
  show ?thesis
    using c [OF ev(1)] c [OF ev(2)] c [OF ev(3)] c [OF ev(4)] f e sample_sentinels_ok
    by (simp add: jint_of_ssize_t_def)
qed

subsection \<open>send\<close>

text \<open>
  C3, as the code has it. Let the system answer the write of \<open>Net_send\<close> with \<open>n\<close>.
  Every \<open>n \<ge> 0\<close> is a success and is returned as the count, zero included (the
  answer to a write of no bytes); the count is \<open>n\<close> itself whenever the system has
  taken no more than the \<open>len\<close> bytes offered. A failure with
  \<^verbatim>\<open>errno == EWOULDBLOCK\<close> gives the Retry sentinel and every other failure the
  Disconnected sentinel. With negative, distinct sentinels the result is Retry exactly
  when the call would block, Disconnected exactly for the other failures, and nothing
  but a count \<open>\<ge> 0\<close>, Retry or Disconnected is returned.
\<close>

theorem send_classification:
  assumes "os_send os (int_of_jlong fd) buf (size_t_of_jint len) 0 s = (n, s')"
  shows "(0 \<le> sint n \<longrightarrow> Net_send K P os fd buf len s = (jint_of_ssize_t n, s'))
       \<and> (0 \<le> sint n \<and> sint n \<le> sint len \<longrightarrow>
            sint (fst (Net_send K P os fd buf len s)) = sint n)
       \<and> (sint n < 0 \<and> os_errno os s' = EWOULDBLOCK P \<longrightarrow>
            Net_send K P os fd buf len s = (ERETRY K, s'))
       \<and> (sint n < 0 \<and> os_errno os s' \<noteq> EWOULDBLOCK P \<longrightarrow>
            Net_send K P os fd buf len s = (EOTHERDISCONNECT K, s'))
       \<and> (sentinels_ok K \<and> (0 \<le> sint n \<longrightarrow> sint n \<le> sint len) \<longrightarrow>
            (fst (Net_send K P os fd buf len s) = ERETRY K
               \<longleftrightarrow> sint n < 0 \<and> os_errno os s' = EWOULDBLOCK P)
          \<and> (fst (Net_send K P os fd buf len s) = EOTHERDISCONNECT K
               \<longleftrightarrow> sint n < 0 \<and> os_errno os s' \<noteq> EWOULDBLOCK P)
          \<and> (0 \<le> sint (fst (Net_send K P os fd buf len s))
               \<or> fst (Net_send K P os fd buf len s) = ERETRY K
               \<or> fst (Net_send K P os fd buf len s) = EOTHERDISCONNECT K))"
proof -
  have neg: "\<not> - 1 < sint n \<longleftrightarrow> sint n < 0" by auto
  show ?thesis
    using assms count_fits [of n len]
    by (auto simp: Net_send_def sentinels_ok_def neg)
qed

text \<open>
  Four writes on the model: two bytes into a send buffer with room; two bytes into a
  full one; two bytes on a descriptor that is not open; no bytes at all.
\<close>

theorem send_classification_witness:
  "sentinels_ok sample_net_h
   \<and> fst (os_send (stream_os linux) (int_of_jlong 5) [1, 2] (size_t_of_jint 2) 0 k_pending) = 2
   \<and> fst (Net_send sample_net_h linux (stream_os linux) 5 [1, 2] 2 k_pending) = 2
   \<and> fst (os_send (stream_os linux) (int_of_jlong 5) [1, 2] (size_t_of_jint 2) 0 k_idle) = - 1
   \<and> fst (Net_send sample_net_h linux (stream_os linux) 5 [1, 2] 2 k_idle) = ERETRY sample_net_h
   \<and> fst (os_send (stream_os linux) (int_of_jlong 6) [1, 2] (size_t_of_jint 2) 0 k_idle) = - 1
   \<and> fst (Net_send sample_net_h linux (stream_os linux) 6 [1, 2] 2 k_idle)
        = EOTHERDISCONNECT sample_net_h
   \<and> fst (os_send (stream_os linux) (int_of_jlong 5) [] (size_t_of_jint 0) 0 k_idle) = 0
   \<and> fst (Net_send sample_net_h linux (stream_os linux) 5 [] 0 k_idle) = 0"
proof -
  let ?os = "stream_os linux"
  let ?run = "\<lambda>fd buf len k. os_send ?os (int_of_jlong fd) buf (size_t_of_jint len) 0 k"
  have f: "fst (?run 5 [1, 2] 2 k_pending) = 2"
    "fst (?run 5 [1, 2] 2 k_idle) = - 1"
    "fst (?run 6 [1, 2] 2 k_idle) = - 1"
    "fst (?run 5 [] 0 k_idle) = 0"
    and e: "os_errno ?os (snd (?run 5 [1, 2] 2 k_idle)) = EWOULDBLOCK linux"
    "os_errno ?os (snd (?run 6 [1, 2] 2 k_idle)) \<noteq> EWOULDBLOCK linux"
    by (simp_all add: stream_os_def k_send_def k_pending_def k_idle_def
        int_of_jlong_def size_t_of_jint_def linux_def EBADF_def)
  have ev: "?run 5 [1, 2] 2 k_pending = (2, snd (?run 5 [1, 2] 2 k_pending))"
    "?run 5 [1, 2] 2 k_idle = (- 1, snd (?run 5 [1, 2] 2 k_idle))"
    "?run 6 [1, 2] 2 k_idle = (- 1, snd (?run 6 [1, 2] 2 k_idle))"
    "?run 5 [] 0 k_idle = (0, snd (?run 5 [] 0 k_idle))"
    using f by (simp_all add: prod_eq_iff)
  note c = send_classification [of ?os _ _ _ _ _ _ sample_net_h linux]
  show ?thesis
    using c [OF ev(1)] c [OF ev(2)] c [OF ev(3)] c [OF ev(4)] f e sample_sentinels_ok
    by (simp add: jint_of_ssize_t_def)
qed

text \<open>
  The claim C3 itself, ``a value \<open>n > 0\<close> on success, Retry, or Disconnected; no other
  outcome'', fails for a write of no bytes: the system answers 0, and \<open>Net_send\<close>
  returns 0, which is not positive and is neither sentinel.
\<close>

theorem send_zero_counterexample:
  "fst (os_send (stream_os linux) (int_of_jlong 5) [] (size_t_of_jint 0) 0 k_idle) = 0
   \<and> fst (Net_send sample_net_h linux (stream_os linux) 5 [] 0 k_idle) = 0
   \<and> \<not> 0 < sint (fst (Net_send sample_net_h linux (stream_os linux) 5 [] 0 k_idle))
   \<and> fst (Net_send sample_net_h linux (stream_os linux) 5 [] 0 k_idle) \<noteq> ERETRY sample_net_h
   \<and> fst (Net_send sample_net_h linux (stream_os linux) 5 [] 0 k_idle)
        \<noteq> EOTHERDISCONNECT sample_net_h"
  by (simp add: Net_send_def stream_os_def k_send_def k_idle_def sample_net_h_def
      int_of_jlong_def size_t_of_jint_def jint_of_ssize_t_def)

subsection \<open>isDead\<close>

text \<open>
  C2, as the code has it. \<open>Net_isDead\<close> makes one read of one byte with flags 0, so a
  byte that is delivered is consumed. Whatever the system, when the read returns,
  \<open>Net_isDead\<close> returns true exactly when the read has returned less than 1, that is 0
  or a failure of any kind, would-block included, and false exactly when the byte was
  read. The sockets of the model are in non-blocking mode, where the read always
  returns: with bytes pending \<open>Net_isDead\<close> returns false and removes the first byte
  from the queue; with nothing pending it returns true, whether or not the peer has
  closed. Nothing is said here of a socket in blocking mode with nothing pending,
  where the read does not return until a byte arrives or the peer closes.
\<close>

theorem isDead_probe:
  "(\<forall>n c s'. os_recv os (int_of_jlong fd) 1 0 s = ((n, c), s') \<longrightarrow>
      Net_isDead os fd s = (if n = 0 \<or> sint n < 0 then JNI_TRUE else JNI_FALSE, s'))
   \<and> (\<forall>e b rest. fds k (int_of_jlong fd) = Some e \<and> rxq e = b # rest \<longrightarrow>
        Net_isDead (stream_os P) fd k =
          (JNI_FALSE, k\<lparr>fds := (fds k)(int_of_jlong fd \<mapsto> e\<lparr>rxq := rest\<rparr>)\<rparr>))
   \<and> (\<forall>e. fds k (int_of_jlong fd) = Some e \<and> rxq e = [] \<longrightarrow>
        fst (Net_isDead (stream_os P) fd k) = JNI_TRUE)"
proof (intro conjI allI impI)
  fix n c s' assume "os_recv os (int_of_jlong fd) 1 0 s = ((n, c), s')"
  moreover have "sint n < 1 \<longleftrightarrow> n = 0 \<or> sint n < 0"
  proof -
    have "sint n = 0 \<longleftrightarrow> n = 0" by (rule signed_eq_0_iff)
    then show ?thesis by auto
  qed
  ultimately show "Net_isDead os fd s = (if n = 0 \<or> sint n < 0 then JNI_TRUE else JNI_FALSE, s')"
    by (simp add: Net_isDead_def)
next
  fix e b rest assume "fds k (int_of_jlong fd) = Some e \<and> rxq e = b # rest"
  then show "Net_isDead (stream_os P) fd k =
          (JNI_FALSE, k\<lparr>fds := (fds k)(int_of_jlong fd \<mapsto> e\<lparr>rxq := rest\<rparr>)\<rparr>)"
    by (simp add: Net_isDead_def stream_os_def k_recv_def)
next
  fix e assume "fds k (int_of_jlong fd) = Some e \<and> rxq e = []"
  then show "fst (Net_isDead (stream_os P) fd k) = JNI_TRUE"
    by (simp add: Net_isDead_def stream_os_def k_recv_def)
qed

text \<open>
  With ``PING'' pending the probe answers false and leaves ``ING''; once the peer has
  closed it answers true.
\<close>

theorem isDead_probe_witness:
  "fst (os_recv (stream_os linux) (int_of_jlong 5) 1 0 k_pending) = (1, [80])
   \<and> fst (Net_isDead (stream_os linux) 5 k_pending) = JNI_FALSE
   \<and> map_option rxq (fds (snd (Net_isDead (stream_os linux) 5 k_pending)) 5) = Some [73, 78, 71]
   \<and> fst (os_recv (stream_os linux) (int_of_jlong 5) 1 0 k_closed) = (0, [])
   \<and> fst (Net_isDead (stream_os linux) 5 k_closed) = JNI_TRUE"
proof -
  let ?os = "stream_os linux"
  let ?run = "\<lambda>k. os_recv ?os (int_of_jlong 5) 1 0 k"
  let ?e = "\<lparr> rxq = [80, 73, 78, 71], eof = False, txq = [], room = 8 \<rparr>"
  let ?c = "\<lparr> rxq = [], eof = True, txq = [], room = 8 \<rparr>"
  have f: "fst (?run k_pending) = (1, [80])" "fst (?run k_closed) = (0, [])"
    by (simp_all add: stream_os_def k_recv_def k_pending_def k_closed_def int_of_jlong_def)
  have ev: "?run k_pending = ((1, [80]), snd (?run k_pending))"
    "?run k_closed = ((0, []), snd (?run k_closed))"
    using f by (simp_all add: prod_eq_iff)
  have p: "fds k_pending (int_of_jlong 5) = Some ?e \<and> rxq ?e = 80 # [73, 78, 71]"
    by (simp add: k_pending_def int_of_jlong_def)
  have q: "fds k_closed (int_of_jlong 5) = Some ?c \<and> rxq ?c = []"
    by (simp add: k_closed_def int_of_jlong_def)
  note read = isDead_probe [of ?os 5 k_pending k_pending linux,
      THEN conjunct1, rule_format, OF ev(1)]
  note shut = isDead_probe [of ?os 5 k_closed k_closed linux,
      THEN conjunct1, rule_format, OF ev(2)]
  note live = isDead_probe [of ?os 5 k_pending k_pending linux,
      THEN conjunct2, THEN conjunct1, rule_format, OF p]
  note dead = isDead_probe [of ?os 5 k_closed k_closed linux,
      THEN conjunct2, THEN conjunct2, rule_format, OF q]
  have "fst (Net_isDead ?os 5 k_pending) = JNI_FALSE" "fst (Net_isDead ?os 5 k_closed) = JNI_TRUE"
    using read shut by simp_all
  moreover have "map_option rxq (fds (snd (Net_isDead ?os 5 k_pending)) 5) = Some [73, 78, 71]"
    using live by (simp add: int_of_jlong_def)
  moreover have "fst (Net_isDead ?os 5 k_closed) = JNI_TRUE"
    using dead .
  ultimately show ?thesis
    using f by simp
qed

text \<open>
  The last part of the claim C2, ``on a connected socket whose peer has not closed,
  isDead returns false'', fails on a socket in non-blocking mode: descriptor 5 of
  \<open>k_idle\<close> is connected, its peer has not closed, nothing is pending, the read fails
  with would-block and the answer is true.
\<close>

theorem isDead_open_peer_counterexample:
  "fds k_idle 5 = Some \<lparr> rxq = [], eof = False, txq = [], room = 0 \<rparr>
   \<and> fst (os_recv (stream_os linux) (int_of_jlong 5) 1 0 k_idle) = (- 1, [])
   \<and> os_errno (stream_os linux) (snd (os_recv (stream_os linux) (int_of_jlong 5) 1 0 k_idle))
        = EWOULDBLOCK linux
   \<and> fst (Net_isDead (stream_os linux) 5 k_idle) = JNI_TRUE
   \<and> JNI_TRUE \<noteq> JNI_FALSE"
  by (simp add: Net_isDead_def stream_os_def k_recv_def k_idle_def int_of_jlong_def
      JNI_TRUE_def JNI_FALSE_def)

subsection \<open>peek\<close>

text \<open>
  C5. \<open>Net_peek\<close> is \<open>Net_recv\<close> run on a system whose read carries the flag
  \<^verbatim>\<open>MSG_PEEK\<close>: the same descriptor, the same length, the same classification of the
  answer, so that whenever the system gives the two reads the same count and the same
  \<^verbatim>\<open>errno\<close> the two functions return the same value. On the model, where \<^verbatim>\<open>MSG_PEEK\<close>
  is honoured, a peek leaves every socket as it was, and a \<open>Net_recv\<close> of the same
  length that follows it returns the same result and the same bytes.
\<close>

theorem peek_like_recv:
  "Net_peek K P os fd len s =
     Net_recv K P (os\<lparr>os_recv := \<lambda>fd len flags. os_recv os fd len (flags OR MSG_PEEK P)\<rparr>) fd len s
   \<and> (\<forall>n bs s1 bs' s2.
         os_recv os (int_of_jlong fd) (size_t_of_jint len) (MSG_PEEK P) s = ((n, bs), s1)
         \<and> os_recv os (int_of_jlong fd) (size_t_of_jint len) 0 s = ((n, bs'), s2)
         \<and> os_errno os s1 = os_errno os s2 \<longrightarrow>
         fst (fst (Net_peek K P os fd len s)) = fst (fst (Net_recv K P os fd len s)))
   \<and> (MSG_PEEK P \<noteq> 0 \<longrightarrow>
        fds (snd (Net_peek K P (stream_os P) fd len k)) = fds k
        \<and> fst (Net_recv K P (stream_os P) fd len (snd (Net_peek K P (stream_os P) fd len k)))
            = fst (Net_peek K P (stream_os P) fd len k))"
proof (intro conjI impI allI)
  show "Net_peek K P os fd len s =
     Net_recv K P (os\<lparr>os_recv := \<lambda>fd len flags. os_recv os fd len (flags OR MSG_PEEK P)\<rparr>) fd len s"
    by (simp add: Net_peek_def Net_recv_def split: prod.splits)
next
  fix n bs s1 bs' s2
  assume "os_recv os (int_of_jlong fd) (size_t_of_jint len) (MSG_PEEK P) s = ((n, bs), s1)
         \<and> os_recv os (int_of_jlong fd) (size_t_of_jint len) 0 s = ((n, bs'), s2)
         \<and> os_errno os s1 = os_errno os s2"
  then show "fst (fst (Net_peek K P os fd len s)) = fst (fst (Net_recv K P os fd len s))"
    by (simp add: Net_peek_def Net_recv_def)
next
  assume "MSG_PEEK P \<noteq> 0"
  then show "fds (snd (Net_peek K P (stream_os P) fd len k)) = fds k"
    by (simp add: Net_peek_def stream_os_def k_recv_def Let_def split: option.splits)
next
  assume "MSG_PEEK P \<noteq> 0"
  then show "fst (Net_recv K P (stream_os P) fd len (snd (Net_peek K P (stream_os P) fd len k)))
            = fst (Net_peek K P (stream_os P) fd len k)"
    by (simp add: Net_peek_def Net_recv_def stream_os_def k_recv_def Let_def split: option.splits)
qed

text \<open>Three bytes of ``PING'' are peeked, then read: twice ``PIN'', and ``G'' is left.\<close>

theorem peek_like_recv_witness:
  "MSG_PEEK linux \<noteq> 0
   \<and> fst (os_recv (stream_os linux) (int_of_jlong 5) (size_t_of_jint 3) (MSG_PEEK linux) k_pending)
        = (3, [80, 73, 78])
   \<and> fst (os_recv (stream_os linux) (int_of_jlong 5) (size_t_of_jint 3) 0 k_pending)
        = (3, [80, 73, 78])
   \<and> fst (fst (Net_peek sample_net_h linux (stream_os linux) 5 3 k_pending))
        = fst (fst (Net_recv sample_net_h linux (stream_os linux) 5 3 k_pending))
   \<and> fst (Net_peek sample_net_h linux (stream_os linux) 5 3 k_pending) = (3, [80, 73, 78])
   \<and> fds (snd (Net_peek sample_net_h linux (stream_os linux) 5 3 k_pending)) = fds k_pending
   \<and> fst (Net_recv sample_net_h linux (stream_os linux) 5 3
            (snd (Net_peek sample_net_h linux (stream_os linux) 5 3 k_pending))) = (3, [80, 73, 78])
   \<and> map_option rxq (fds (snd (Net_recv sample_net_h linux (stream_os linux) 5 3
            (snd (Net_peek sample_net_h linux (stream_os linux) 5 3 k_pending)))) 5) = Some [71]"
proof -
  let ?os = "stream_os linux"
  let ?run = "\<lambda>flags. os_recv ?os (int_of_jlong 5) (size_t_of_jint 3) flags k_pending"
  have m: "MSG_PEEK linux \<noteq> 0" by (simp add: linux_def)
  have f: "fst (?run (MSG_PEEK linux)) = (3, [80, 73, 78])" "fst (?run 0) = (3, [80, 73, 78])"
    and e: "os_errno ?os (snd (?run (MSG_PEEK linux))) = os_errno ?os (snd (?run 0))"
    by (simp_all add: stream_os_def k_recv_def k_pending_def linux_def
        int_of_jlong_def size_t_of_jint_def)
  have ev: "?run (MSG_PEEK linux) = ((3, [80, 73, 78]), snd (?run (MSG_PEEK linux)))
      \<and> ?run 0 = ((3, [80, 73, 78]), snd (?run 0))
      \<and> os_errno ?os (snd (?run (MSG_PEEK linux))) = os_errno ?os (snd (?run 0))"
    using f e by (simp add: prod_eq_iff)
  have v: "Net_peek sample_net_h linux ?os 5 3 k_pending = ((3, [80, 73, 78]), k_pending)"
    by (simp add: Net_peek_def stream_os_def k_recv_def k_pending_def linux_def
        int_of_jlong_def size_t_of_jint_def jint_of_ssize_t_def)
  have r: "map_option rxq (fds (snd (Net_recv sample_net_h linux ?os 5 3 k_pending)) 5) = Some [71]"
    by (simp add: Net_recv_def stream_os_def k_recv_def k_pending_def linux_def
        int_of_jlong_def size_t_of_jint_def jint_of_ssize_t_def)
  note same = peek_like_recv [of sample_net_h linux ?os 5 3 k_pending k_pending,
      THEN conjunct2, THEN conjunct1, rule_format, OF ev]
  note kept = peek_like_recv [of sample_net_h linux ?os 5 3 k_pending k_pending,
      THEN conjunct2, THEN conjunct2, rule_format, OF m]
  show ?thesis
    using same kept m f v r by simp
qed

subsection \<open>Byte order\<close>

lemma bswap32_bytes: "be_bytes32 (bswap32 x) = rev (be_bytes32 x)"
  unfolding be_bytes32_def bswap32_def
  apply simp
  apply (intro conjI; rule bit_word_eqI)
     apply (auto simp: bit_simps)
  done

lemma bswap16_bytes: "be_bytes16 (bswap16 x) = rev (be_bytes16 x)"
  unfolding be_bytes16_def bswap16_def
  apply simp
  apply (intro conjI; rule bit_word_eqI)
   apply (auto simp: bit_simps)
  done

text \<open>A word is determined by its bytes.\<close>

lemma be_word32_bytes: "be_word32 (be_bytes32 x) = x"
proof (rule bit_word_eqI)
  fix n assume "n < LENGTH(32)"
  then have n: "n < 32" by simp
  consider "n < 8" | "8 \<le> n" "n < 16" | "16 \<le> n" "n < 24" | "24 \<le> n" by linarith
  then show "bit (be_word32 (be_bytes32 x)) n = bit x n"
  proof cases
    case 1 then show ?thesis by (simp add: be_bytes32_def be_word32_def bit_simps)
  next
    case 2 then show ?thesis by (auto simp: be_bytes32_def be_word32_def bit_simps)
  next
    case 3 then show ?thesis by (auto simp: be_bytes32_def be_word32_def bit_simps)
  next
    case 4 then show ?thesis using n by (auto simp: be_bytes32_def be_word32_def bit_simps)
  qed
qed

lemma be_word16_bytes: "be_word16 (be_bytes16 x) = x"
proof (rule bit_word_eqI)
  fix n assume "n < LENGTH(16)"
  then have n: "n < 16" by simp
  consider "n < 8" | "8 \<le> n" by linarith
  then show "bit (be_word16 (be_bytes16 x)) n = bit x n"
  proof cases
    case 1 then show ?thesis by (simp add: be_bytes16_def be_word16_def bit_simps)
  next
    case 2 then show ?thesis using n by (auto simp: be_bytes16_def be_word16_def bit_simps)
  qed
qed

lemma bswap32_bswap32: "bswap32 (bswap32 x) = x"
proof -
  have "be_bytes32 (bswap32 (bswap32 x)) = be_bytes32 x"
    by (simp add: bswap32_bytes)
  then have "be_word32 (be_bytes32 (bswap32 (bswap32 x))) = be_word32 (be_bytes32 x)"
    by (simp only:)
  then show ?thesis by (simp only: be_word32_bytes)
qed

lemma bswap16_bswap16: "bswap16 (bswap16 x) = x"
proof -
  have "be_bytes16 (bswap16 (bswap16 x)) = be_bytes16 x"
    by (simp add: bswap16_bytes)
  then have "be_word16 (be_bytes16 (bswap16 (bswap16 x))) = be_word16 (be_bytes16 x)"
    by (simp only:)
  then show ?thesis by (simp only: be_word16_bytes)
qed

text \<open>
  Whatever the byte order of the host, the value of \<^verbatim>\<open>htonl\<close> lies in memory most
  significant byte first, and \<^verbatim>\<open>ntohl\<close> reads the value whose bytes, most significant
  first, are those in memory.
\<close>

lemma mem_bytes32_htonl: "mem_bytes32 P (htonl P x) = be_bytes32 x"
  by (simp add: mem_bytes32_def htonl_def bswap32_bytes)

lemma mem_bytes16_htons: "mem_bytes16 P (htons P x) = be_bytes16 x"
  by (simp add: mem_bytes16_def htons_def bswap16_bytes)

lemma be_bytes32_ntohl: "be_bytes32 (ntohl P x) = mem_bytes32 P x"
  by (simp add: mem_bytes32_def ntohl_def bswap32_bytes)

lemma be_bytes16_ntohs: "be_bytes16 (ntohs P x) = mem_bytes16 P x"
  by (simp add: mem_bytes16_def ntohs_def bswap16_bytes)

lemma ntohl_be_word32: "ntohl P x = be_word32 (mem_bytes32 P x)"
  using be_word32_bytes [of "ntohl P x"] by (simp only: be_bytes32_ntohl)

lemma ntohs_be_word16: "ntohs P x = be_word16 (mem_bytes16 P x)"
  using be_word16_bytes [of "ntohs P x"] by (simp only: be_bytes16_ntohs)

lemma ntohl_htonl: "ntohl P (htonl P x) = x"
  by (simp add: ntohl_def htonl_def bswap32_bswap32)

lemma ntohs_htons: "ntohs P (htons P x) = x"
  by (simp add: ntohs_def htons_def bswap16_bswap16)

lemma take_bit_sint:
  "n \<le> LENGTH('a) \<Longrightarrow> take_bit n (sint (w :: 'a::len word)) = take_bit n (uint w)"
  by (simp add: sint_uint take_bit_signed_take_bit)

lemma ttl_byte: "uint (ucast (ttl :: jint) :: byte) = sint ttl mod 256"
proof -
  have "uint (ucast ttl :: byte) = take_bit 8 (uint ttl)"
    by (simp add: unsigned_ucast_eq)
  also have "\<dots> = take_bit 8 (sint ttl)"
    by (simp add: take_bit_sint)
  also have "\<dots> = sint ttl mod 256"
    by (simp add: take_bit_eq_mod)
  finally show ?thesis .
qed

lemma ucast_ttl_mod: "(ucast (ttl :: jint) :: byte) = word_of_int (sint ttl mod 256)"
proof -
  have "(ucast ttl :: byte) = word_of_int (uint (ucast ttl :: byte))"
    by (simp only: word_of_int_uint)
  then show ?thesis by (simp only: ttl_byte)
qed

lemma port_in_range:
  assumes "0 \<le> sint (port :: jint)" "sint port < 65536"
  shows "uint (ucast port :: 16 word) = sint port"
proof -
  have "uint (ucast port :: 16 word) = take_bit 16 (uint port)"
    by (simp add: unsigned_ucast_eq)
  also have "\<dots> = take_bit 16 (sint port)"
    by (simp add: take_bit_sint)
  also have "\<dots> = sint port"
    using assms by (simp add: take_bit_int_eq_self)
  finally show ?thesis .
qed

lemma sint_ucast16: "sint (ucast (x :: 16 word) :: jint) = uint x"
proof -
  have b: "0 \<le> uint x" "uint x < 65536"
    using uint_bounded [of x] by simp_all
  have lo: "- (2 ^ 31) \<le> (0 :: int)" by simp
  have hi: "(65536 :: int) \<le> 2 ^ 31" by simp
  have "sint (ucast x :: jint) = signed_take_bit 31 (uint x)"
    by (simp add: signed_ucast_eq)
  also have "\<dots> = uint x"
  proof (rule signed_take_bit_int_eq_self)
    show "- (2 ^ 31) \<le> uint x" using lo b(1) by (rule order_trans)
    show "uint x < 2 ^ 31" using b(2) hi by (rule less_le_trans)
  qed
  finally show ?thesis .
qed

lemma port_result_range:
  "0 \<le> sint (ucast (x :: 16 word) :: jint) \<and> sint (ucast x :: jint) < 65536"
proof -
  have b: "0 \<le> uint x" "uint x < 65536"
    using uint_bounded [of x] by simp_all
  show ?thesis
    unfolding sint_ucast16 using b by (intro conjI)
qed

lemma port_result_not_sentinel:
  "(ucast (x :: 16 word) :: jint) \<noteq> - 1 \<and> (ucast x :: jint) \<noteq> - 2"
proof -
  have "sint (- 1 :: jint) < 0" "sint (- 2 :: jint) < 0" by simp_all
  then have "sint (ucast x :: jint) \<noteq> sint (- 1 :: jint)"
    "sint (ucast x :: jint) \<noteq> sint (- 2 :: jint)"
    using port_result_range [of x] by linarith+
  then show ?thesis by auto
qed

subsection \<open>Socket creation\<close>

text \<open>
  C4. In \<open>Net_socketTcp0\<close> with \<open>blocking\<close> false and in \<open>Net_socketUdp0\<close> the setup steps
  are run when \<^verbatim>\<open>socket\<close> has returned a descriptor \<open>fd > 0\<close>. If then \<^verbatim>\<open>fcntl\<close> fails,
  or for TCP \<^verbatim>\<open>fcntl\<close> succeeds and \<^verbatim>\<open>setsockopt\<close> fails, the function closes \<open>fd\<close>, as
  its last call, and returns \<open>-1\<close>; it returns the descriptor only when every step has
  succeeded. For \<open>fd \<le> 0\<close> no setup step is run, so none fails: the answer of
  \<^verbatim>\<open>socket\<close> is returned as it is.
\<close>

theorem socket_setup_rollback:
  "(\<forall>fd s1 r1 s2 r2 s3.
       os_socket os (AF_INET P) (SOCK_STREAM P) 0 s = (fd, s1) \<and> 0 < sint fd
     \<and> os_fcntl os fd (F_SETFL P) (O_NONBLOCK P) s1 = (r1, s2)
     \<and> os_setsockopt os fd (SOL_SOCKET P) (SO_REUSEADDR P) (mem_bytes32 P 1) s2 = (r2, s3)
     \<longrightarrow> (sint r1 < 0 \<longrightarrow> Net_socketTcp0 P os 0 s = (- 1, snd (os_close os fd s2)))
       \<and> (0 \<le> sint r1 \<and> sint r2 < 0 \<longrightarrow>
             Net_socketTcp0 P os 0 s = (- 1, snd (os_close os fd s3)))
       \<and> (0 \<le> sint r1 \<and> 0 \<le> sint r2 \<longrightarrow> Net_socketTcp0 P os 0 s = (jlong_of_int fd, s3)))
   \<and> (\<forall>fd s1 r1 s2.
       os_socket os (AF_INET P) (SOCK_DGRAM P) 0 s = (fd, s1) \<and> 0 < sint fd
     \<and> os_fcntl os fd (F_SETFL P) (O_NONBLOCK P) s1 = (r1, s2)
     \<longrightarrow> (sint r1 < 0 \<longrightarrow> Net_socketUdp0 P os s = (- 1, snd (os_close os fd s2)))
       \<and> (0 \<le> sint r1 \<longrightarrow> Net_socketUdp0 P os s = (jlong_of_int fd, s2)))
   \<and> (\<forall>fd s1. os_socket os (AF_INET P) (SOCK_STREAM P) 0 s = (fd, s1) \<and> sint fd \<le> 0
     \<longrightarrow> Net_socketTcp0 P os 0 s = (jlong_of_int fd, s1))
   \<and> (\<forall>fd s1. os_socket os (AF_INET P) (SOCK_DGRAM P) 0 s = (fd, s1) \<and> sint fd \<le> 0
     \<longrightarrow> Net_socketUdp0 P os s = (jlong_of_int fd, s1))"
  by (auto simp: Net_socketTcp0_def Net_socketUdp0_def)

text \<open>
  On the scripted system: \<^verbatim>\<open>socket\<close> answers 7 and \<^verbatim>\<open>fcntl\<close> fails; \<^verbatim>\<open>socket\<close> answers 7,
  \<^verbatim>\<open>fcntl\<close> succeeds and \<^verbatim>\<open>setsockopt\<close> fails; \<^verbatim>\<open>fcntl\<close> fails for UDP. Each time the
  result is \<open>-1\<close> and the last call is \<^verbatim>\<open>close(7)\<close>. Then every step succeeds and 7 is
  returned; and \<^verbatim>\<open>socket\<close> answers 0 or \<open>-1\<close>, no other call is made and the answer is
  returned.
\<close>

theorem socket_setup_rollback_witness:
  "fst (Net_socketTcp0 linux scripted 0 (script_of [7, - 1, 0] no_peer)) = - 1
   \<and> trace (snd (Net_socketTcp0 linux scripted 0 (script_of [7, - 1, 0] no_peer)))
       = [Socket 2 1 0, Fcntl 7 4 2048, Close 7]
   \<and> fst (Net_socketTcp0 linux scripted 0 (script_of [7, 0, - 1, 0] no_peer)) = - 1
   \<and> trace (snd (Net_socketTcp0 linux scripted 0 (script_of [7, 0, - 1, 0] no_peer)))
       = [Socket 2 1 0, Fcntl 7 4 2048, Setsockopt 7 1 2 [1, 0, 0, 0], Close 7]
   \<and> fst (Net_socketUdp0 linux scripted (script_of [7, - 1, 0] no_peer)) = - 1
   \<and> trace (snd (Net_socketUdp0 linux scripted (script_of [7, - 1, 0] no_peer)))
       = [Socket 2 2 0, Fcntl 7 4 2048, Close 7]
   \<and> fst (Net_socketTcp0 linux scripted 0 (script_of [7, 0, 0] no_peer)) = 7
   \<and> trace (snd (Net_socketTcp0 linux scripted 0 (script_of [7, 0, 0] no_peer)))
       = [Socket 2 1 0, Fcntl 7 4 2048, Setsockopt 7 1 2 [1, 0, 0, 0]]
   \<and> fst (Net_socketTcp0 linux scripted 0 (script_of [0] no_peer)) = 0
   \<and> trace (snd (Net_socketTcp0 linux scripted 0 (script_of [0] no_peer))) = [Socket 2 1 0]
   \<and> fst (Net_socketUdp0 linux scripted (script_of [- 1] no_peer)) = - 1
   \<and> trace (snd (Net_socketUdp0 linux scripted (script_of [- 1] no_peer))) = [Socket 2 2 0]"
proof -
  let ?t = "script_of [7, - 1, 0] no_peer"
  let ?u = "script_of [7, 0, - 1, 0] no_peer"
  let ?v = "script_of [7, 0, 0] no_peer"
  let ?z = "script_of [0] no_peer"
  let ?n = "script_of [- 1] no_peer"
  let ?sock = "\<lambda>ty t. os_socket scripted (AF_INET linux) ty 0 t"
  let ?fcntl = "\<lambda>t. os_fcntl scripted 7 (F_SETFL linux) (O_NONBLOCK linux) t"
  let ?opt = "\<lambda>t. os_setsockopt scripted 7 (SOL_SOCKET linux) (SO_REUSEADDR linux)
                     (mem_bytes32 linux 1) t"
  have a: "?sock (SOCK_STREAM linux) ?t = (7, snd (?sock (SOCK_STREAM linux) ?t)) \<and> 0 < sint (7 :: c_int)
      \<and> ?fcntl (snd (?sock (SOCK_STREAM linux) ?t))
          = (- 1, snd (?fcntl (snd (?sock (SOCK_STREAM linux) ?t))))
      \<and> ?opt (snd (?fcntl (snd (?sock (SOCK_STREAM linux) ?t))))
          = (0, snd (?opt (snd (?fcntl (snd (?sock (SOCK_STREAM linux) ?t))))))"
    by (simp add: scripted_def answer_def script_of_def)
  have b: "?sock (SOCK_STREAM linux) ?u = (7, snd (?sock (SOCK_STREAM linux) ?u)) \<and> 0 < sint (7 :: c_int)
      \<and> ?fcntl (snd (?sock (SOCK_STREAM linux) ?u))
          = (0, snd (?fcntl (snd (?sock (SOCK_STREAM linux) ?u))))
      \<and> ?opt (snd (?fcntl (snd (?sock (SOCK_STREAM linux) ?u))))
          = (- 1, snd (?opt (snd (?fcntl (snd (?sock (SOCK_STREAM linux) ?u))))))"
    by (simp add: scripted_def answer_def script_of_def)
  have c: "?sock (SOCK_DGRAM linux) ?t = (7, snd (?sock (SOCK_DGRAM linux) ?t)) \<and> 0 < sint (7 :: c_int)
      \<and> ?fcntl (snd (?sock (SOCK_DGRAM linux) ?t))
          = (- 1, snd (?fcntl (snd (?sock (SOCK_DGRAM linux) ?t))))"
    by (simp add: scripted_def answer_def script_of_def)
  have d: "?sock (SOCK_STREAM linux) ?v = (7, snd (?sock (SOCK_STREAM linux) ?v)) \<and> 0 < sint (7 :: c_int)
      \<and> ?fcntl (snd (?sock (SOCK_STREAM linux) ?v))
          = (0, snd (?fcntl (snd (?sock (SOCK_STREAM linux) ?v))))
      \<and> ?opt (snd (?fcntl (snd (?sock (SOCK_STREAM linux) ?v))))
          = (0, snd (?opt (snd (?fcntl (snd (?sock (SOCK_STREAM linux) ?v))))))"
    by (simp add: scripted_def answer_def script_of_def)
  have e: "?sock (SOCK_STREAM linux) ?z = (0, snd (?sock (SOCK_STREAM linux) ?z)) \<and> sint (0 :: c_int) \<le> 0"
    by (simp add: scripted_def answer_def script_of_def)
  have g: "?sock (SOCK_DGRAM linux) ?n = (- 1, snd (?sock (SOCK_DGRAM linux) ?n)) \<and> sint (- 1 :: c_int) \<le> 0"
    by (simp add: scripted_def answer_def script_of_def)
  note tcp1 = socket_setup_rollback [of scripted linux ?t, THEN conjunct1, rule_format, OF a]
  note tcp2 = socket_setup_rollback [of scripted linux ?u, THEN conjunct1, rule_format, OF b]
  note udp = socket_setup_rollback [of scripted linux ?t, THEN conjunct2, THEN conjunct1,
      rule_format, OF c]
  note tcp3 = socket_setup_rollback [of scripted linux ?v, THEN conjunct1, rule_format, OF d]
  note tcp0 = socket_setup_rollback [of scripted linux ?z, THEN conjunct2, THEN conjunct2,
      THEN conjunct1, rule_format, OF e]
  note udp0 = socket_setup_rollback [of scripted linux ?n, THEN conjunct2, THEN conjunct2,
      THEN conjunct2, rule_format, OF g]
  have "Net_socketTcp0 linux scripted 0 ?t
          = (- 1, snd (os_close scripted 7 (snd (?fcntl (snd (?sock (SOCK_STREAM linux) ?t))))))"
    using tcp1 by simp
  moreover have "Net_socketTcp0 linux scripted 0 ?u
          = (- 1, snd (os_close scripted 7 (snd (?opt (snd (?fcntl (snd (?sock (SOCK_STREAM linux) ?u))))))))"
    using tcp2 by simp
  moreover have "Net_socketUdp0 linux scripted ?t
          = (- 1, snd (os_close scripted 7 (snd (?fcntl (snd (?sock (SOCK_DGRAM linux) ?t))))))"
    using udp by simp
  moreover have "Net_socketTcp0 linux scripted 0 ?v
          = (jlong_of_int 7, snd (?opt (snd (?fcntl (snd (?sock (SOCK_STREAM linux) ?v))))))"
    using tcp3 by simp
  moreover note tcp0 udp0
  ultimately show ?thesis
    by (simp add: scripted_def answer_def script_of_def linux_def mem_bytes32_def be_bytes32_def
        jlong_of_int_def)
qed

subsection \<open>Peer address and port\<close>

lemma be_bytes32_eq_iff: "be_bytes32 x = be_bytes32 y \<longleftrightarrow> x = y"
proof
  assume "be_bytes32 x = be_bytes32 y"
  then have "be_word32 (be_bytes32 x) = be_word32 (be_bytes32 y)" by (simp only:)
  then show "x = y" by (simp only: be_word32_bytes)
qed simp

lemma ntohl_eq_iff: "ntohl P x = w \<longleftrightarrow> mem_bytes32 P x = be_bytes32 w"
  using be_bytes32_eq_iff [of "ntohl P x" w] by (simp only: be_bytes32_ntohl)

text \<open>
  C6, as the code has it. Let \<^verbatim>\<open>getpeername\<close> answer \<open>r\<close> and fill \<open>peer\<close>. If the lookup
  fails (\<open>r \<noteq> 0\<close>) both functions return \<open>-1\<close>. If it succeeds and the family is not
  \<^verbatim>\<open>AF_INET\<close> both return \<open>-2\<close>. Otherwise \<open>Net_getPeerIP\<close> returns the address and
  \<open>Net_getPeerPort\<close> the port in host byte order: the value whose bytes, most
  significant first, are those of the field in memory. The port lies between 0 and
  65535, so for \<open>Net_getPeerPort\<close> the result is \<open>-1\<close> exactly when the lookup fails and
  \<open>-2\<close> exactly when the family is not IPv4. The address fills all 32 bits of the
  \<^verbatim>\<open>jint\<close>, so \<open>Net_getPeerIP\<close> returns \<open>-1\<close> also for the IPv4 peer 255.255.255.255 and
  \<open>-2\<close> also for the IPv4 peer 255.255.255.254.
\<close>

theorem peer_info:
  assumes "os_getpeername os (int_of_jlong fd) 16 s = ((r, peer), s')"
  shows "(r \<noteq> 0 \<longrightarrow> Net_getPeerIP P os fd s = (- 1, s') \<and> Net_getPeerPort P os fd s = (- 1, s'))
       \<and> (r = 0 \<and> ucast (sin_family peer) \<noteq> AF_INET P \<longrightarrow>
            Net_getPeerIP P os fd s = (- 2, s') \<and> Net_getPeerPort P os fd s = (- 2, s'))
       \<and> (r = 0 \<and> ucast (sin_family peer) = AF_INET P \<longrightarrow>
            Net_getPeerIP P os fd s = (be_word32 (mem_bytes32 P (s_addr peer)), s')
          \<and> Net_getPeerPort P os fd s = (ucast (be_word16 (mem_bytes16 P (sin_port peer))), s')
          \<and> sint (fst (Net_getPeerPort P os fd s)) = uint (be_word16 (mem_bytes16 P (sin_port peer)))
          \<and> 0 \<le> sint (fst (Net_getPeerPort P os fd s))
          \<and> sint (fst (Net_getPeerPort P os fd s)) < 65536)
       \<and> (fst (Net_getPeerPort P os fd s) = - 1 \<longleftrightarrow> r \<noteq> 0)
       \<and> (fst (Net_getPeerPort P os fd s) = - 2 \<longleftrightarrow> r = 0 \<and> ucast (sin_family peer) \<noteq> AF_INET P)
       \<and> (fst (Net_getPeerIP P os fd s) = - 1 \<longleftrightarrow>
            r \<noteq> 0 \<or> (ucast (sin_family peer) = AF_INET P
                       \<and> mem_bytes32 P (s_addr peer) = [255, 255, 255, 255]))
       \<and> (fst (Net_getPeerIP P os fd s) = - 2 \<longleftrightarrow>
            (r = 0 \<and> ucast (sin_family peer) \<noteq> AF_INET P)
            \<or> (r = 0 \<and> ucast (sin_family peer) = AF_INET P
                 \<and> mem_bytes32 P (s_addr peer) = [255, 255, 255, 254]))"
proof -
  let ?a = "be_word32 (mem_bytes32 P (s_addr peer))"
  let ?p = "be_word16 (mem_bytes16 P (sin_port peer))"
  have ip: "Net_getPeerIP P os fd s =
      (if r = 0 then if ucast (sin_family peer) = AF_INET P then ?a else - 2 else - 1, s')"
    using assms by (simp add: Net_getPeerIP_def ntohl_be_word32)
  have port: "Net_getPeerPort P os fd s =
      (if r = 0 then if ucast (sin_family peer) = AF_INET P then ucast ?p else - 2 else - 1, s')"
    using assms by (simp add: Net_getPeerPort_def ntohs_be_word16)
  have "(- 1 :: 32 word) = 4294967295" "(- 2 :: 32 word) = 4294967294"
    by simp_all
  moreover have "be_bytes32 4294967295 = [255, 255, 255, 255]"
    "be_bytes32 4294967294 = [255, 255, 255, 254]"
    by (simp_all add: be_bytes32_def)
  ultimately have "be_bytes32 (- 1) = [255, 255, 255, 255]"
    "be_bytes32 (- 2) = [255, 255, 255, 254]"
    by (simp_all only:)
  then have m1: "?a = - 1 \<longleftrightarrow> mem_bytes32 P (s_addr peer) = [255, 255, 255, 255]"
    and m2: "?a = - 2 \<longleftrightarrow> mem_bytes32 P (s_addr peer) = [255, 255, 255, 254]"
    using ntohl_eq_iff [of P "s_addr peer"] by (simp_all only: ntohl_be_word32 [symmetric])
  have "(- 1 :: jint) \<noteq> - 2" by simp
  then show ?thesis
    using port_result_not_sentinel [of ?p] port_result_range [of ?p] sint_ucast16 [of ?p]
    by (auto simp: ip port m1 m2)
qed


text \<open>
  On the scripted system: the lookup succeeds for the peer 127.0.0.1, port 9009; it
  fails; it succeeds for a peer of family \<^verbatim>\<open>AF_INET6\<close>.
\<close>

theorem peer_info_witness:
  "fst (os_getpeername scripted (int_of_jlong 7) 16 (script_of [0] peer_loopback)) = (0, peer_loopback)
   \<and> ucast (sin_family peer_loopback) = AF_INET linux
   \<and> mem_bytes32 linux (s_addr peer_loopback) = [127, 0, 0, 1]
   \<and> fst (Net_getPeerIP linux scripted 7 (script_of [0] peer_loopback)) = 2130706433
   \<and> fst (Net_getPeerPort linux scripted 7 (script_of [0] peer_loopback)) = 9009
   \<and> fst (os_getpeername scripted (int_of_jlong 7) 16 (script_of [- 1] no_peer)) = (- 1, no_peer)
   \<and> fst (Net_getPeerIP linux scripted 7 (script_of [- 1] no_peer)) = - 1
   \<and> fst (Net_getPeerPort linux scripted 7 (script_of [- 1] no_peer)) = - 1
   \<and> fst (os_getpeername scripted (int_of_jlong 7) 16 (script_of [0] peer_inet6)) = (0, peer_inet6)
   \<and> ucast (sin_family peer_inet6) \<noteq> AF_INET linux
   \<and> fst (Net_getPeerIP linux scripted 7 (script_of [0] peer_inet6)) = - 2
   \<and> fst (Net_getPeerPort linux scripted 7 (script_of [0] peer_inet6)) = - 2"
proof -
  let ?run = "\<lambda>t. os_getpeername scripted (int_of_jlong 7) 16 t"
  have f: "fst (?run (script_of [0] peer_loopback)) = (0, peer_loopback)"
    "fst (?run (script_of [- 1] no_peer)) = (- 1, no_peer)"
    "fst (?run (script_of [0] peer_inet6)) = (0, peer_inet6)"
    by (simp_all add: scripted_def answer_def script_of_def)
  have ev: "?run (script_of [0] peer_loopback) = ((0, peer_loopback), snd (?run (script_of [0] peer_loopback)))"
    "?run (script_of [- 1] no_peer) = ((- 1, no_peer), snd (?run (script_of [- 1] no_peer)))"
    "?run (script_of [0] peer_inet6) = ((0, peer_inet6), snd (?run (script_of [0] peer_inet6)))"
    using f by (simp_all add: prod_eq_iff)
  have fam: "ucast (sin_family peer_loopback) = AF_INET linux"
    "ucast (sin_family peer_inet6) \<noteq> AF_INET linux"
    by (simp_all add: peer_loopback_def peer_inet6_def linux_def)
  have bytes: "mem_bytes32 linux (s_addr peer_loopback) = [127, 0, 0, 1]"
    "mem_bytes16 linux (sin_port peer_loopback) = [35, 49]"
    by (simp_all add: mem_bytes32_def mem_bytes16_def be_bytes32_def be_bytes16_def
        peer_loopback_def linux_def)
  have val: "be_word32 [127, 0, 0, 1] = 2130706433" "ucast (be_word16 [35, 49]) = (9009 :: jint)"
    by (simp_all add: be_word32_def be_word16_def)
  show ?thesis
    using peer_info [OF ev(1), of linux] peer_info [OF ev(2), of linux]
      peer_info [OF ev(3), of linux] f fam bytes val
    by simp
qed

text \<open>
  The claim C6 itself, ``\<open>-1\<close> exactly when the peer lookup fails, \<open>-2\<close> exactly when
  the lookup succeeds but the family is not IPv4'', fails for \<open>Net_getPeerIP\<close>: the
  lookup succeeds, the family is IPv4, and the result is \<open>-1\<close> for the peer
  255.255.255.255 and \<open>-2\<close> for the peer 255.255.255.254.
\<close>

theorem getPeerIP_sentinel_counterexample:
  "fst (os_getpeername scripted (int_of_jlong 7) 16 (script_of [0] peer_all_ones)) = (0, peer_all_ones)
   \<and> ucast (sin_family peer_all_ones) = AF_INET linux
   \<and> mem_bytes32 linux (s_addr peer_all_ones) = [255, 255, 255, 255]
   \<and> fst (Net_getPeerIP linux scripted 7 (script_of [0] peer_all_ones)) = - 1
   \<and> fst (os_getpeername scripted (int_of_jlong 7) 16 (script_of [0] peer_class_e)) = (0, peer_class_e)
   \<and> ucast (sin_family peer_class_e) = AF_INET linux
   \<and> mem_bytes32 linux (s_addr peer_class_e) = [255, 255, 255, 254]
   \<and> fst (Net_getPeerIP linux scripted 7 (script_of [0] peer_class_e)) = - 2"
  by (simp add: Net_getPeerIP_def scripted_def answer_def script_of_def peer_all_ones_def
      peer_class_e_def linux_def int_of_jlong_def ntohl_def bswap32_def mem_bytes32_def
      be_bytes32_def)

subsection \<open>Building and freeing addresses\<close>

text \<open>
  C7. When \<^verbatim>\<open>calloc\<close> returns a block, \<open>Net_sockaddr\<close> returns its address and the heap
  holds there a descriptor of family \<^verbatim>\<open>AF_INET\<close> whose address field is \<^verbatim>\<open>htonl\<close> of the
  given address and whose port field is \<^verbatim>\<open>htons\<close> of the low 16 bits of the given port.
  In memory the two fields are in network byte order, most significant byte first,
  whatever the byte order of the host; read back with \<^verbatim>\<open>ntohl\<close> and \<^verbatim>\<open>ntohs\<close> they are the
  host-order values the caller gave, a port between 0 and 65535 being kept whole.
\<close>

theorem sockaddr_build:
  "alloc h \<noteq> 0 \<longrightarrow>
     (\<exists>d. Net_sockaddr P alloc address port h = Inr (alloc h, h(alloc h \<mapsto> d))
        \<and> sin_family d = ucast (AF_INET P)
        \<and> s_addr d = htonl P address
        \<and> sin_port d = htons P (ucast port)
        \<and> mem_bytes32 P (s_addr d) = be_bytes32 address
        \<and> mem_bytes16 P (sin_port d) = be_bytes16 (ucast port)
        \<and> ntohl P (s_addr d) = address
        \<and> ntohs P (sin_port d) = ucast port
        \<and> (0 \<le> sint port \<and> sint port < 65536 \<longrightarrow> uint (ntohs P (sin_port d)) = sint port))"
proof
  assume nz: "alloc h \<noteq> 0"
  let ?d = "\<lparr> sin_family = ucast (AF_INET P), sin_port = htons P (ucast port),
             s_addr = htonl P address \<rparr>"
  have "Net_sockaddr P alloc address port h = Inr (alloc h, h(alloc h \<mapsto> ?d))"
    using nz by (simp add: Net_sockaddr_def Let_def)
  moreover have "0 \<le> sint port \<and> sint port < 65536 \<longrightarrow> uint (ntohs P (sin_port ?d)) = sint port"
    by (simp add: ntohs_htons port_in_range)
  ultimately show "\<exists>d. Net_sockaddr P alloc address port h = Inr (alloc h, h(alloc h \<mapsto> d))
        \<and> sin_family d = ucast (AF_INET P)
        \<and> s_addr d = htonl P address
        \<and> sin_port d = htons P (ucast port)
        \<and> mem_bytes32 P (s_addr d) = be_bytes32 address
        \<and> mem_bytes16 P (sin_port d) = be_bytes16 (ucast port)
        \<and> ntohl P (s_addr d) = address
        \<and> ntohs P (sin_port d) = ucast port
        \<and> (0 \<le> sint port \<and> sint port < 65536 \<longrightarrow> uint (ntohs P (sin_port d)) = sint port)"
    by (intro exI [of _ ?d]) (simp add: mem_bytes32_htonl mem_bytes16_htons ntohl_htonl ntohs_htons)
qed

text \<open>127.0.0.1, port 9009, built on an empty heap at address 4096 of a little-endian host.\<close>

theorem sockaddr_build_witness:
  "(\<lambda>h :: heap. 4096 :: jlong) Map.empty \<noteq> 0
   \<and> Net_sockaddr linux (\<lambda>h. 4096) 2130706433 9009 Map.empty
       = Inr (4096, [4096 \<mapsto> \<lparr> sin_family = 2, sin_port = 12579, s_addr = 16777343 \<rparr>])
   \<and> mem_bytes32 linux 16777343 = [127, 0, 0, 1]
   \<and> mem_bytes16 linux 12579 = [35, 49]
   \<and> 0 \<le> sint (9009 :: jint) \<and> sint (9009 :: jint) < 65536
   \<and> uint (ntohs linux 12579) = 9009"
proof -
  let ?alloc = "\<lambda>h :: heap. 4096 :: jlong"
  have nz: "?alloc Map.empty \<noteq> 0" by simp
  have v: "htonl linux 2130706433 = 16777343" "htons linux (ucast (9009 :: jint)) = 12579"
    "ucast (AF_INET linux) = (2 :: 16 word)"
    by (simp_all add: htonl_def htons_def bswap32_def bswap16_def linux_def)
  have b: "be_bytes32 2130706433 = [127, 0, 0, 1]" "be_bytes16 (ucast (9009 :: jint)) = [35, 49]"
    by (simp_all add: be_bytes32_def be_bytes16_def)
  from sockaddr_build [of ?alloc Map.empty linux 2130706433 9009, rule_format, OF nz]
  obtain d where d: "Net_sockaddr linux ?alloc 2130706433 9009 Map.empty = Inr (4096, [4096 \<mapsto> d])"
    "sin_family d = ucast (AF_INET linux)" "s_addr d = htonl linux 2130706433"
    "sin_port d = htons linux (ucast (9009 :: jint))"
    "mem_bytes32 linux (s_addr d) = be_bytes32 2130706433"
    "mem_bytes16 linux (sin_port d) = be_bytes16 (ucast (9009 :: jint))"
    "0 \<le> sint (9009 :: jint) \<and> sint (9009 :: jint) < 65536 \<longrightarrow> uint (ntohs linux (sin_port d)) = sint (9009 :: jint)"
    by auto
  have "d = \<lparr> sin_family = 2, sin_port = 12579, s_addr = 16777343 \<rparr>"
    using d(2-4) v by simp
  then show ?thesis
    using d v b by simp
qed

text \<open>
  C8. \<open>Net_freeSockAddr\<close> of a descriptor that is in the heap removes it and nothing
  else. \<open>Net_freeSockAddr\<close> of the null handle returns the heap as it is, whatever the
  heap, hence also after a descriptor has been freed and its handle replaced by null.
  And a descriptor built at a fresh address and then freed leaves the heap as it was
  before.
\<close>

theorem free_sockaddr:
  "Net_freeSockAddr 0 h = Inr h
   \<and> (address \<noteq> 0 \<and> address \<in> dom h \<longrightarrow>
        Net_freeSockAddr address h = Inr (h(address := None))
        \<and> Net_freeSockAddr 0 (h(address := None)) = Inr (h(address := None)))
   \<and> (alloc h \<noteq> 0 \<and> alloc h \<notin> dom h \<longrightarrow>
        (\<exists>h'. Net_sockaddr P alloc ip port h = Inr (alloc h, h')
           \<and> Net_freeSockAddr (alloc h) h' = Inr h))"
  by (auto simp: Net_freeSockAddr_def Net_sockaddr_def Let_def)

theorem free_sockaddr_witness:
  "Net_freeSockAddr 0 [4096 \<mapsto> peer_loopback] = Inr [4096 \<mapsto> peer_loopback]
   \<and> (4096 :: jlong) \<noteq> 0 \<and> 4096 \<in> dom [4096 \<mapsto> peer_loopback]
   \<and> Net_freeSockAddr 4096 [4096 \<mapsto> peer_loopback] = Inr Map.empty
   \<and> Net_freeSockAddr 0 Map.empty = Inr Map.empty
   \<and> (\<exists>h'. Net_sockaddr linux (\<lambda>h. 4096) 2130706433 9009 Map.empty = Inr (4096, h')
         \<and> Net_freeSockAddr 4096 h' = Inr Map.empty)"
proof -
  let ?h = "[4096 \<mapsto> peer_loopback] :: heap"
  let ?alloc = "\<lambda>h :: heap. 4096 :: jlong"
  have p: "(4096 :: jlong) \<noteq> 0 \<and> 4096 \<in> dom ?h" by simp
  have q: "?alloc Map.empty \<noteq> 0 \<and> ?alloc Map.empty \<notin> dom (Map.empty :: heap)" by simp
  note null = free_sockaddr [of ?h 4096 ?alloc linux 0 0, THEN conjunct1]
  note freed = free_sockaddr [of ?h 4096 ?alloc linux 0 0, THEN conjunct2, THEN conjunct1,
      rule_format, OF p]
  note round = free_sockaddr [of Map.empty 0 ?alloc linux 2130706433 9009, THEN conjunct2,
      THEN conjunct2, rule_format, OF q]
  show ?thesis
    using null freed round by simp
qed

subsection \<open>Multicast\<close>

text \<open>
  C9. \<open>Net_join\<close> makes one call, the membership request, with the group address and
  then the interface address in network byte order. It returns true exactly when the
  request succeeds (the system answers \<open>\<ge> 0\<close>; \<^verbatim>\<open>setsockopt\<close> answers 0) and false exactly
  when it fails (the system answers \<open>< 0\<close>; \<^verbatim>\<open>setsockopt\<close> answers \<open>-1\<close>). After a failed
  join the system is in the state the failed request left it in: \<open>Net_join\<close> makes no
  other call, in particular it does not close the descriptor, as the trace of the
  scripted system shows for every script.
\<close>

theorem join_result:
  "(\<forall>r s'. os_setsockopt os (int_of_jlong fd) (IPPROTO_IP P) (IP_ADD_MEMBERSHIP P)
             (be_bytes32 groupAddress @ be_bytes32 bindAddress) s = (r, s') \<longrightarrow>
        Net_join P os fd bindAddress groupAddress s = (if sint r < 0 then JNI_FALSE else JNI_TRUE, s')
      \<and> (fst (Net_join P os fd bindAddress groupAddress s) = JNI_TRUE \<longleftrightarrow> 0 \<le> sint r)
      \<and> (fst (Net_join P os fd bindAddress groupAddress s) = JNI_FALSE \<longleftrightarrow> sint r < 0))
   \<and> trace (snd (Net_join P scripted fd bindAddress groupAddress t))
       = trace t @ [Setsockopt (int_of_jlong fd) (IPPROTO_IP P) (IP_ADD_MEMBERSHIP P)
                      (be_bytes32 groupAddress @ be_bytes32 bindAddress)]"
proof (intro conjI allI impI)
  fix r s'
  assume a: "os_setsockopt os (int_of_jlong fd) (IPPROTO_IP P) (IP_ADD_MEMBERSHIP P)
             (be_bytes32 groupAddress @ be_bytes32 bindAddress) s = (r, s')"
  then show j: "Net_join P os fd bindAddress groupAddress s
                 = (if sint r < 0 then JNI_FALSE else JNI_TRUE, s')"
    by (simp add: Net_join_def mem_bytes32_htonl)
  show "fst (Net_join P os fd bindAddress groupAddress s) = JNI_TRUE \<longleftrightarrow> 0 \<le> sint r"
    by (auto simp: j JNI_TRUE_def JNI_FALSE_def)
  show "fst (Net_join P os fd bindAddress groupAddress s) = JNI_FALSE \<longleftrightarrow> sint r < 0"
    by (auto simp: j JNI_TRUE_def JNI_FALSE_def)
next
  show "trace (snd (Net_join P scripted fd bindAddress groupAddress t))
       = trace t @ [Setsockopt (int_of_jlong fd) (IPPROTO_IP P) (IP_ADD_MEMBERSHIP P)
                      (be_bytes32 groupAddress @ be_bytes32 bindAddress)]"
    by (simp add: Net_join_def Let_def mem_bytes32_htonl scripted_def answer_def split: list.splits)
qed

text \<open>
  Descriptor 7 joins the group 224.0.0.251 on the interface 127.0.0.1: the request
  succeeds; it fails, and a call on the same descriptor that follows reaches the
  system and returns its answer.
\<close>

theorem join_result_witness:
  "os_setsockopt scripted (int_of_jlong 7) (IPPROTO_IP linux) (IP_ADD_MEMBERSHIP linux)
       (be_bytes32 3758096635 @ be_bytes32 2130706433) (script_of [0] no_peer)
     = (0, \<lparr> answers = [], peer_answer = no_peer,
             trace = [Setsockopt 7 0 35 [224, 0, 0, 251, 127, 0, 0, 1]] \<rparr>)
   \<and> fst (Net_join linux scripted 7 2130706433 3758096635 (script_of [0] no_peer)) = JNI_TRUE
   \<and> fst (os_setsockopt scripted (int_of_jlong 7) (IPPROTO_IP linux) (IP_ADD_MEMBERSHIP linux)
       (be_bytes32 3758096635 @ be_bytes32 2130706433) (script_of [- 1, 0] no_peer)) = - 1
   \<and> fst (Net_join linux scripted 7 2130706433 3758096635 (script_of [- 1, 0] no_peer)) = JNI_FALSE
   \<and> trace (snd (Net_join linux scripted 7 2130706433 3758096635 (script_of [- 1, 0] no_peer)))
       = [Setsockopt 7 0 35 [224, 0, 0, 251, 127, 0, 0, 1]]
   \<and> fst (Net_setMulticastTtl linux scripted 7 1
            (snd (Net_join linux scripted 7 2130706433 3758096635 (script_of [- 1, 0] no_peer)))) = 0"
proof -
  let ?run = "\<lambda>t. os_setsockopt scripted (int_of_jlong 7) (IPPROTO_IP linux) (IP_ADD_MEMBERSHIP linux)
       (be_bytes32 3758096635 @ be_bytes32 2130706433) t"
  let ?ok = "script_of [0] no_peer"
  let ?ko = "script_of [- 1, 0] no_peer"
  have f: "?run ?ok = (0, \<lparr> answers = [], peer_answer = no_peer,
             trace = [Setsockopt 7 0 35 [224, 0, 0, 251, 127, 0, 0, 1]] \<rparr>)"
    "?run ?ko = (- 1, \<lparr> answers = [0], peer_answer = no_peer,
             trace = [Setsockopt 7 0 35 [224, 0, 0, 251, 127, 0, 0, 1]] \<rparr>)"
    by (simp_all add: scripted_def answer_def script_of_def linux_def int_of_jlong_def be_bytes32_def)
  note ok = join_result [of scripted 7 linux 3758096635 2130706433 ?ok ?ok,
      THEN conjunct1, rule_format, OF f(1)]
  note ko = join_result [of scripted 7 linux 3758096635 2130706433 ?ko ?ko,
      THEN conjunct1, rule_format, OF f(2)]
  have after: "fst (Net_setMulticastTtl linux scripted 7 1
      \<lparr> answers = [0], peer_answer = no_peer,
        trace = [Setsockopt 7 0 35 [224, 0, 0, 251, 127, 0, 0, 1]] \<rparr>) = 0"
    by (simp add: Net_setMulticastTtl_def scripted_def answer_def)
  show ?thesis
    using ok ko f after by simp
qed

text \<open>
  C10. The option value \<open>Net_setMulticastTtl\<close> hands to the system is the single byte
  \<open>ttl mod 256\<close>, so two arguments congruent modulo 256 make the same call and have the
  same result.
\<close>

theorem ttl_truncation:
  "Net_setMulticastTtl P os fd ttl s =
     (case os_setsockopt os (int_of_jlong fd) (IPPROTO_IP P) (IP_MULTICAST_TTL P)
             [word_of_int (sint ttl mod 256)] s of
        (result, s') \<Rightarrow> (if result = 0 then 0 else - 1, s'))
   \<and> uint (word_of_int (sint ttl mod 256) :: byte) = sint ttl mod 256
   \<and> trace (snd (Net_setMulticastTtl P scripted fd ttl t))
       = trace t @ [Setsockopt (int_of_jlong fd) (IPPROTO_IP P) (IP_MULTICAST_TTL P)
                      [word_of_int (sint ttl mod 256)]]
   \<and> (sint ttl mod 256 = sint ttl' mod 256 \<longrightarrow>
        Net_setMulticastTtl P os fd ttl s = Net_setMulticastTtl P os fd ttl' s)"
proof (intro conjI impI)
  show "Net_setMulticastTtl P os fd ttl s =
     (case os_setsockopt os (int_of_jlong fd) (IPPROTO_IP P) (IP_MULTICAST_TTL P)
             [word_of_int (sint ttl mod 256)] s of
        (result, s') \<Rightarrow> (if result = 0 then 0 else - 1, s'))"
    by (simp add: Net_setMulticastTtl_def ucast_ttl_mod split: prod.splits)
  show "uint (word_of_int (sint ttl mod 256) :: byte) = sint ttl mod 256"
    using ttl_byte [of ttl] by (simp only: ucast_ttl_mod)
  show "trace (snd (Net_setMulticastTtl P scripted fd ttl t))
       = trace t @ [Setsockopt (int_of_jlong fd) (IPPROTO_IP P) (IP_MULTICAST_TTL P)
                      [word_of_int (sint ttl mod 256)]]"
    by (simp add: Net_setMulticastTtl_def Let_def ucast_ttl_mod scripted_def answer_def
        split: list.splits)
  assume "sint ttl mod 256 = sint ttl' mod 256"
  then have "(ucast ttl :: byte) = ucast ttl'"
    by (simp only: ucast_ttl_mod)
  then show "Net_setMulticastTtl P os fd ttl s = Net_setMulticastTtl P os fd ttl' s"
    by (simp add: Net_setMulticastTtl_def)
qed

text \<open>257 and 1 both set the TTL 1; \<open>-1\<close> sets 255.\<close>

theorem ttl_truncation_witness:
  "sint (257 :: jint) mod 256 = sint (1 :: jint) mod 256
   \<and> Net_setMulticastTtl linux scripted 7 257 (script_of [0] no_peer)
       = Net_setMulticastTtl linux scripted 7 1 (script_of [0] no_peer)
   \<and> trace (snd (Net_setMulticastTtl linux scripted 7 257 (script_of [0] no_peer)))
       = [Setsockopt 7 0 33 [1]]
   \<and> trace (snd (Net_setMulticastTtl linux scripted 7 (- 1) (script_of [0] no_peer)))
       = [Setsockopt 7 0 33 [255]]"
proof -
  let ?t = "script_of [0] no_peer"
  have c: "sint (257 :: jint) mod 256 = sint (1 :: jint) mod 256" by simp
  have m: "sint (257 :: jint) mod 256 = 1" "sint (- 1 :: jint) mod 256 = 255" by simp_all
  note same = ttl_truncation [of linux scripted 7 257 ?t ?t 1,
      THEN conjunct2, THEN conjunct2, THEN conjunct2, rule_format, OF c]
  note tr1 = ttl_truncation [of linux scripted 7 257 ?t ?t 1,
      THEN conjunct2, THEN conjunct2, THEN conjunct1]
  note tr2 = ttl_truncation [of linux scripted 7 "- 1" ?t ?t 1,
      THEN conjunct2, THEN conjunct2, THEN conjunct1]
  show ?thesis
    using same tr1 tr2 c
    by (simp add: m script_of_def linux_def int_of_jlong_def)
qed

end
